theory Spec2Isabelle
  imports Complex_Main "HOL-Library.Sublist" "HOL-Library.Word"
begin

section \<open>The Go standard library, as far as siasync uses it\<close>

text \<open>
  A Go \<^verbatim>\<open>error\<close> is its message; \<^verbatim>\<open>nil\<close> is \<open>None\<close> of \<open>error option\<close>.
  A Go result pair \<^verbatim>\<open>(T, error)\<close> whose value is not read on error is \<open>error + T\<close>.
\<close>

type_synonym error = string

subsection \<open>strings and strconv\<close>

definition HasPrefix :: "string \<Rightarrow> string \<Rightarrow> bool" where
  "HasPrefix s pre = prefix pre s"

definition Contains :: "string \<Rightarrow> string \<Rightarrow> bool" where
  "Contains s substr = sublist substr s"

definition TrimPrefix :: "string \<Rightarrow> string \<Rightarrow> string" where
  "TrimPrefix s pre = (if prefix pre s then drop (length pre) s else s)"

definition TrimSuffix :: "string \<Rightarrow> string \<Rightarrow> string" where
  "TrimSuffix s suf = (if suffix suf s then take (length s - length suf) s else s)"

text \<open>\<^verbatim>\<open>strings.Split(s, "/")\<close>: the fields between separators, \<open>[[]]\<close> for the empty string.\<close>

fun Split :: "string \<Rightarrow> string list" where
  "Split [] = [[]]"
| "Split (c # cs) =
     (if c = CHR ''/'' then [] # Split cs
      else (case Split cs of [] \<Rightarrow> [[c]] | w # ws \<Rightarrow> (c # w) # ws))"

text \<open>\<^verbatim>\<open>strings.Join(elems, "/")\<close>.\<close>

fun JoinSep :: "string list \<Rightarrow> string" where
  "JoinSep [] = []"
| "JoinSep [w] = w"
| "JoinSep (w # ws) = w @ ''/'' @ JoinSep ws"

text \<open>\<^verbatim>\<open>strconv.FormatInt(i, 10)\<close>.\<close>

fun FormatNat :: "nat \<Rightarrow> string" where
  "FormatNat n =
     (if n < 10 then [''0123456789'' ! n]
      else FormatNat (n div 10) @ [''0123456789'' ! (n mod 10)])"

declare FormatNat.simps [simp del]

definition FormatInt :: "int \<Rightarrow> string" where
  "FormatInt i = (if i < 0 then CHR ''-'' # FormatNat (nat (- i)) else FormatNat (nat i))"

subsection \<open>path/filepath on Unix\<close>

text \<open>
  \<^verbatim>\<open>filepath.Clean\<close>: empty and \<^verbatim>\<open>.\<close> elements are dropped, an inner \<^verbatim>\<open>..\<close> removes the
  element before it, a \<^verbatim>\<open>..\<close> at the start of a rooted path is dropped and one at the
  start of a relative path is kept; the empty result is \<^verbatim>\<open>.\<close>.
\<close>

definition cleanStep :: "bool \<Rightarrow> string list \<Rightarrow> string \<Rightarrow> string list" where
  "cleanStep rooted out e =
     (if e = ''..'' then
        (if out \<noteq> [] \<and> last out \<noteq> ''..'' then butlast out
         else if rooted then out
         else out @ [e])
      else out @ [e])"

definition cleanElems :: "bool \<Rightarrow> string \<Rightarrow> string list" where
  "cleanElems rooted p =
     foldl (cleanStep rooted) [] (filter (\<lambda>e. e \<noteq> [] \<and> e \<noteq> ''.'') (Split p))"

definition Clean :: "string \<Rightarrow> string" where
  "Clean p =
     (let rooted = HasPrefix p ''/'';
          out = (if rooted then ''/'' else []) @ JoinSep (cleanElems rooted p)
      in if out = [] then ''.'' else out)"

text \<open>\<^verbatim>\<open>filepath.Join\<close> of two elements: empty elements are ignored, the rest is cleaned.\<close>

definition Join :: "string \<Rightarrow> string \<Rightarrow> string" where
  "Join a b =
     (if a \<noteq> [] then Clean (a @ ''/'' @ b)
      else if b \<noteq> [] then Clean b
      else [])"

definition IsAbs :: "string \<Rightarrow> bool" where
  "IsAbs p = HasPrefix p ''/''"

text \<open>
  \<^verbatim>\<open>filepath.Rel(basepath, targpath)\<close>: both paths are cleaned; equal paths give \<^verbatim>\<open>.\<close>;
  a rooted and a relative path cannot be related; otherwise the common leading elements
  are dropped, each remaining base element becomes \<^verbatim>\<open>..\<close>, and a remaining base element
  \<^verbatim>\<open>..\<close> met at the first difference is an error.
\<close>

fun dropCommon :: "string list \<Rightarrow> string list \<Rightarrow> string list \<times> string list" where
  "dropCommon (b # bs) (t # ts) = (if b = t then dropCommon bs ts else (b # bs, t # ts))"
| "dropCommon bs ts = (bs, ts)"

definition Rel :: "string \<Rightarrow> string \<Rightarrow> error + string" where
  "Rel basepath targpath =
     (let base = Clean basepath; targ = Clean targpath in
      if targ = base then Inr ''.''
      else
        let base' = (if base = ''.'' then [] else base) in
        if HasPrefix base' ''/'' \<noteq> HasPrefix targ ''/'' then
          Inl (''Rel: can't make '' @ targpath @ '' relative to '' @ basepath)
        else
          (case dropCommon (filter (\<lambda>e. e \<noteq> []) (Split base'))
                           (filter (\<lambda>e. e \<noteq> []) (Split targ)) of
             (bs, ts) \<Rightarrow>
               if bs \<noteq> [] \<and> ts \<noteq> [] \<and> hd bs = ''..'' then
                 Inl (''Rel: can't make '' @ targpath @ '' relative to '' @ basepath)
               else Inr (JoinSep (replicate (length bs) ''..'' @ ts))))"

subsection \<open>The operating system\<close>

text \<open>
  What \<^verbatim>\<open>os.Stat\<close> reports of a path, the working directory, what \<^verbatim>\<open>filepath.Walk\<close> finds
  below a root (a failed \<^verbatim>\<open>Lstat\<close> or directory read is \<open>Failed\<close>), and the answers of
  the fsnotify watcher.
\<close>

record FileStat =
  Size :: int
  IsDir :: bool

datatype node = File | Dir "(string \<times> node) list" | Failed error

record OS =
  Getwd :: "error + string"
  Stat :: "string \<Rightarrow> error + FileStat"
  Lstat :: "string \<Rightarrow> node"
  NewWatcher :: "error option"
  WatcherAdd :: "string \<Rightarrow> error option"

definition Abs :: "OS \<Rightarrow> string \<Rightarrow> error + string" where
  "Abs os p =
     (if IsAbs p then Inr (Clean p)
      else (case Getwd os of Inl err \<Rightarrow> Inl err | Inr wd \<Rightarrow> Inr (Join wd p)))"

section \<open>The Sia packages: \<^verbatim>\<open>modules.SiaPath\<close> and the API client\<close>

text \<open>
  A \<^verbatim>\<open>modules.SiaPath\<close> is a relative remote path. \<^verbatim>\<open>modules.NewSiaPath\<close> trims one
  leading and one trailing slash and rejects a path with an empty, \<^verbatim>\<open>.\<close> or \<^verbatim>\<open>..\<close>
  element (the empty path among them). \<^verbatim>\<open>Equals\<close> compares the paths. \<^verbatim>\<open>Rebase\<close>
  fails unless the old base is a string prefix of the path, returns the new base when
  nothing is left, and otherwise joins what is left to the new base.
\<close>

datatype SiaPath = SiaPath (Path: string)

definition validatePath :: "string \<Rightarrow> error option" where
  "validatePath p =
     (if p = [] then Some ''path must be a nonempty string''
      else if list_ex (\<lambda>e. e = [] \<or> e = ''.'' \<or> e = ''..'') (Split p)
        then Some ''siapath cannot contain empty, . or .. elements''
      else None)"

definition clean :: "string \<Rightarrow> string" where
  "clean s = TrimSuffix (TrimPrefix s ''/'') ''/''"

definition NewSiaPath :: "string \<Rightarrow> error + SiaPath" where
  "NewSiaPath s =
     (case validatePath (clean s) of
        Some err \<Rightarrow> Inl err
      | None \<Rightarrow> Inr (SiaPath (clean s)))"

definition Equals :: "SiaPath \<Rightarrow> SiaPath \<Rightarrow> bool" where
  "Equals sp sp' = (Path sp = Path sp')"

definition SiaPath_Join :: "SiaPath \<Rightarrow> string \<Rightarrow> error + SiaPath" where
  "SiaPath_Join sp s =
     (if s = [] \<or> clean s = [] then Inl ''cannot join an empty string to a siapath''
      else NewSiaPath (Path sp @ ''/'' @ clean s))"

definition Rebase :: "SiaPath \<Rightarrow> SiaPath \<Rightarrow> SiaPath \<Rightarrow> error + SiaPath" where
  "Rebase sp oldBase newBase =
     (if \<not> HasPrefix (Path sp) (Path oldBase)
        then Inl (Path oldBase @ '' isn't the base of '' @ Path sp)
      else
        let relPath = TrimPrefix (Path sp) (Path oldBase) in
        if relPath = [] then Inr newBase else SiaPath_Join newBase relPath)"

text \<open>
  What the renter API reports: \<^verbatim>\<open>modules.FileInfo\<close> (remote path and size, a
  \<^verbatim>\<open>uint64\<close>), \<^verbatim>\<open>modules.DirectoryInfo\<close> (remote path and aggregate minimum redundancy;
  the \<^verbatim>\<open>float64\<close> is a real number here, so a NaN is outside the model) and
  \<^verbatim>\<open>api.RenterDirectory\<close>. \<^verbatim>\<open>api.RenterFiles\<close> is its list of files.
\<close>

datatype FileInfo = FileInfo (FileInfo_SiaPath: SiaPath) (Filesize: "64 word")

datatype DirectoryInfo =
  DirectoryInfo (DirectoryInfo_SiaPath: SiaPath) (AggregateMinRedundancy: real)

record RenterDirectory =
  Directories :: "DirectoryInfo list"
  Files :: "FileInfo list"

text \<open>
  The requests siasync sends to the node, and the node's answers. The node is a
  state machine over a state \<open>'r\<close>: a \<open>'r Client\<close> answers a request in a state and
  gives the next state. An answer of the wrong shape is a decoding error.
\<close>

datatype Call =
    FilesGet bool
  | FileGet SiaPath
  | UploadPost string SiaPath nat nat
  | DeletePost SiaPath
  | RenamePost SiaPath SiaPath
  | GetDir SiaPath

datatype Response =
    Failure error
  | Done
  | FilesOf "FileInfo list"
  | FileOf FileInfo
  | DirectoryOf RenterDirectory

type_synonym 'r Client = "Call \<Rightarrow> 'r \<Rightarrow> Response \<times> 'r"

section \<open>siasync\<close>

subsection \<open>The package variables and the SiaFolder\<close>

text \<open>
  The package level of \<^verbatim>\<open>main.go\<close>. Its variables \<^verbatim>\<open>dryRun\<close>, \<^verbatim>\<open>siaStagingDir\<close> and
  \<^verbatim>\<open>siaProdDir\<close> are set from the command line: they are a parameter of every function
  here. The values its constants \<^verbatim>\<open>movieDir\<close>, \<^verbatim>\<open>tvDir\<close>, \<^verbatim>\<open>dataPieces\<close> and
  \<^verbatim>\<open>parityPieces\<close> have are only passed on, so they are parameters too, and the
  examples give them the values of \<^verbatim>\<open>main.go\<close>. The constant \<^verbatim>\<open>archive\<close>, which the code
  branches on, is \<^verbatim>\<open>true\<close>.
\<close>

definition g_archive :: bool where
  "g_archive = True"

record Globals =
  g_dryRun :: bool
  g_siaStagingDir :: string
  g_siaProdDir :: string
  movieDir :: string
  tvDir :: string
  dataPieces :: nat
  parityPieces :: nat

text \<open>
  \<^verbatim>\<open>SiaFolder\<close>. The field \<open>client\<close> is the state of the node behind the API client
  and \<open>calls\<close> records, oldest first, the requests sent through it; \<open>watcher\<close> is
  the watcher's watch set (\<open>None\<close> for \<^verbatim>\<open>nil\<close>). The close channel is left out.
\<close>

record 'r SiaFolder =
  path :: string
  client :: 'r
  calls :: "Call list"
  archive :: bool
  siaStagingDir :: string
  siaProdDir :: string
  watcher :: "string list option"
  files :: "string \<rightharpoonup> string"
  dirs :: "string \<rightharpoonup> bool"

definition request :: "'r Client \<Rightarrow> Call \<Rightarrow> 'r SiaFolder \<Rightarrow> Response \<times> 'r SiaFolder" where
  "request api c sf =
     (case api c (client sf) of
        (resp, r') \<Rightarrow> (resp, sf\<lparr>client := r', calls := calls sf @ [c]\<rparr>))"

definition unexpected :: error where
  "unexpected = ''could not decode the response''"

definition RenterFilesGet ::
  "'r Client \<Rightarrow> bool \<Rightarrow> 'r SiaFolder \<Rightarrow> (error + FileInfo list) \<times> 'r SiaFolder" where
  "RenterFilesGet api cached sf =
     (case request api (FilesGet cached) sf of
        (FilesOf fs, sf') \<Rightarrow> (Inr fs, sf')
      | (Failure err, sf') \<Rightarrow> (Inl err, sf')
      | (_, sf') \<Rightarrow> (Inl unexpected, sf'))"

definition RenterFileGet ::
  "'r Client \<Rightarrow> SiaPath \<Rightarrow> 'r SiaFolder \<Rightarrow> (error + FileInfo) \<times> 'r SiaFolder" where
  "RenterFileGet api sp sf =
     (case request api (FileGet sp) sf of
        (FileOf f, sf') \<Rightarrow> (Inr f, sf')
      | (Failure err, sf') \<Rightarrow> (Inl err, sf')
      | (_, sf') \<Rightarrow> (Inl unexpected, sf'))"

definition RenterGetDir ::
  "'r Client \<Rightarrow> SiaPath \<Rightarrow> 'r SiaFolder \<Rightarrow> (error + RenterDirectory) \<times> 'r SiaFolder" where
  "RenterGetDir api sp sf =
     (case request api (GetDir sp) sf of
        (DirectoryOf d, sf') \<Rightarrow> (Inr d, sf')
      | (Failure err, sf') \<Rightarrow> (Inl err, sf')
      | (_, sf') \<Rightarrow> (Inl unexpected, sf'))"

definition post :: "'r Client \<Rightarrow> Call \<Rightarrow> 'r SiaFolder \<Rightarrow> error option \<times> 'r SiaFolder" where
  "post api c sf =
     (case request api c sf of
        (Failure err, sf') \<Rightarrow> (Some err, sf')
      | (_, sf') \<Rightarrow> (None, sf'))"

definition RenterUploadPost ::
  "'r Client \<Rightarrow> string \<Rightarrow> SiaPath \<Rightarrow> nat \<Rightarrow> nat \<Rightarrow> 'r SiaFolder
     \<Rightarrow> error option \<times> 'r SiaFolder" where
  "RenterUploadPost api abspath sp dp pp sf = post api (UploadPost abspath sp dp pp) sf"

definition RenterDeletePost ::
  "'r Client \<Rightarrow> SiaPath \<Rightarrow> 'r SiaFolder \<Rightarrow> error option \<times> 'r SiaFolder" where
  "RenterDeletePost api sp sf = post api (DeletePost sp) sf"

definition RenterRenamePost ::
  "'r Client \<Rightarrow> SiaPath \<Rightarrow> SiaPath \<Rightarrow> 'r SiaFolder \<Rightarrow> error option \<times> 'r SiaFolder" where
  "RenterRenamePost api sp sp' sf = post api (RenamePost sp sp') sf"

subsection \<open>utils.go\<close>

text \<open>\<^verbatim>\<open>sizeFile\<close> and \<^verbatim>\<open>checksumFile\<close>: the fingerprint of a file is its size in decimal.\<close>

definition sizeFile :: "OS \<Rightarrow> string \<Rightarrow> error + string" where
  "sizeFile os p =
     (case Stat os p of
        Inl err \<Rightarrow> Inl err
      | Inr stat \<Rightarrow> Inr (FormatInt (Size stat)))"

definition checksumFile :: "OS \<Rightarrow> string \<Rightarrow> error + string" where
  "checksumFile os p =
     (case sizeFile os p of
        Inl err \<Rightarrow> Inl err
      | Inr checksum \<Rightarrow> Inr checksum)"

text \<open>
  \<^verbatim>\<open>newSiaPath\<close> panics on an invalid path: \<open>None\<close>. Every function that can reach
  it returns an option, \<open>None\<close> for the panic.
\<close>

definition newSiaPath :: "string \<Rightarrow> SiaPath option" where
  "newSiaPath p = (case NewSiaPath p of Inl err \<Rightarrow> None | Inr siaPath \<Rightarrow> Some siaPath)"

definition getSiaPath :: "Globals \<Rightarrow> string \<Rightarrow> SiaPath option" where
  "getSiaPath g relpath = newSiaPath (Join (g_siaStagingDir g) relpath)"

subsection \<open>siafolder.go: the handlers\<close>

text \<open>
  A handler returns its Go \<^verbatim>\<open>error\<close> and the folder after it, or \<open>None\<close> when it
  panics. Log lines are not recorded, but the line of \<^verbatim>\<open>handleCreate\<close> that prints
  \<^verbatim>\<open>getSiaPath(relpath)\<close> evaluates it, and so can panic, also in a dry run.
\<close>

definition handleCreate ::
  "Globals \<Rightarrow> OS \<Rightarrow> 'r Client \<Rightarrow> string \<Rightarrow> 'r SiaFolder
     \<Rightarrow> (error option \<times> 'r SiaFolder) option" where
  "handleCreate g os api file sf =
     (case Abs os file of
        Inl err \<Rightarrow> Some (Some (''error getting absolute path to upload: '' @ err), sf)
      | Inr abspath \<Rightarrow>
     (case Rel (path sf) file of
        Inl err \<Rightarrow> Some (Some (''error getting relative path to upload: '' @ err), sf)
      | Inr relpath \<Rightarrow>
     (case getSiaPath g relpath of
        None \<Rightarrow> None
      | Some sp \<Rightarrow>
     (case (if \<not> g_dryRun g
            then RenterUploadPost api abspath sp (dataPieces g) (parityPieces g) sf
            else (None, sf)) of
        (Some err, sf') \<Rightarrow> Some (Some (''error uploading '' @ file @ '': '' @ err), sf')
      | (None, sf') \<Rightarrow>
     (case checksumFile os file of
        Inl err \<Rightarrow> Some (Some err, sf')
      | Inr checksum \<Rightarrow> Some (None, sf'\<lparr>files := (files sf')(file \<mapsto> checksum)\<rparr>))))))"

definition handleRemove ::
  "Globals \<Rightarrow> 'r Client \<Rightarrow> string \<Rightarrow> 'r SiaFolder
     \<Rightarrow> (error option \<times> 'r SiaFolder) option" where
  "handleRemove g api file sf =
     (case Rel (path sf) file of
        Inl err \<Rightarrow> Some (Some (''error getting relative path to remove: '' @ err), sf)
      | Inr relpath \<Rightarrow>
          if \<not> g_dryRun g then
            (case getSiaPath g relpath of
               None \<Rightarrow> None
             | Some sp \<Rightarrow>
            (case RenterDeletePost api sp sf of
               (Some err, sf') \<Rightarrow> Some (Some (''error removing '' @ file @ '': '' @ err), sf')
             | (None, sf') \<Rightarrow> Some (None, sf'\<lparr>files := (files sf')(file := None)\<rparr>)))
          else Some (None, sf\<lparr>files := (files sf)(file := None)\<rparr>))"

text \<open>\<^verbatim>\<open>isFile\<close> returns the pair \<^verbatim>\<open>(exists, err)\<close>; its caller reads both.\<close>

definition isFile ::
  "'r Client \<Rightarrow> string \<Rightarrow> 'r SiaFolder \<Rightarrow> ((bool \<times> error option) \<times> 'r SiaFolder) option" where
  "isFile api file sf =
     (case Rel (path sf) file of
        Inl err \<Rightarrow> Some ((False, Some (''error getting relative path: '' @ err)), sf)
      | Inr relpath \<Rightarrow>
     (case newSiaPath relpath of
        None \<Rightarrow> None
      | Some sp \<Rightarrow>
     (case RenterFileGet api sp sf of
        (Inl err, sf') \<Rightarrow>
          Some ((if Contains err ''no file known'' then False else True, None), sf')
      | (Inr f, sf') \<Rightarrow> Some ((True, None), sf'))))"

definition handleFileWrite ::
  "Globals \<Rightarrow> OS \<Rightarrow> 'r Client \<Rightarrow> string \<Rightarrow> 'r SiaFolder
     \<Rightarrow> (error option \<times> 'r SiaFolder) option" where
  "handleFileWrite g os api file sf =
     (case checksumFile os file of
        Inl err \<Rightarrow> Some (Some err, sf)
      | Inr checksum \<Rightarrow>
     (case files sf file of
        None \<Rightarrow> Some (None, sf)
      | Some oldChecksum \<Rightarrow>
          if oldChecksum \<noteq> checksum then
            (let sf1 = sf\<lparr>files := (files sf)(file \<mapsto> checksum)\<rparr> in
             if \<not> archive sf1 then
               (case handleRemove g api file sf1 of
                  None \<Rightarrow> None
                | Some (Some err, sf2) \<Rightarrow> Some (Some err, sf2)
                | Some (None, sf2) \<Rightarrow> handleCreate g os api file sf2)
             else handleCreate g os api file sf1)
          else Some (None, sf)))"

subsection \<open>utils.go: the create-retry policy\<close>

text \<open>\<^verbatim>\<open>uploadRetry\<close> returns nothing: every error after the first is only logged.\<close>

definition uploadRetry ::
  "Globals \<Rightarrow> OS \<Rightarrow> 'r Client \<Rightarrow> string \<Rightarrow> 'r SiaFolder \<Rightarrow> 'r SiaFolder option" where
  "uploadRetry g os api filename sf =
     (case handleCreate g os api filename sf of
        None \<Rightarrow> None
      | Some (None, sf1) \<Rightarrow> Some sf1
      | Some (Some err, sf1) \<Rightarrow>
     (case isFile api filename sf1 of
        None \<Rightarrow> None
      | Some ((exists, err'), sf2) \<Rightarrow>
     (case (if exists \<and> \<not> g_archive
            then (case handleRemove g api filename sf2 of
                    None \<Rightarrow> None
                  | Some (err'', sf3) \<Rightarrow> Some sf3)
            else Some sf2) of
        None \<Rightarrow> None
      | Some sf3 \<Rightarrow>
     (case handleCreate g os api filename sf3 of
        None \<Rightarrow> None
      | Some (err2, sf4) \<Rightarrow> Some sf4))))"

subsection \<open>siafolder.go: the remote listings\<close>

definition getSiaFiles ::
  "Globals \<Rightarrow> 'r Client \<Rightarrow> 'r SiaFolder \<Rightarrow> (error + FileInfo list) \<times> 'r SiaFolder" where
  "getSiaFiles g api sf =
     (case RenterFilesGet api True sf of
        (Inl err, sf') \<Rightarrow> (Inl err, sf')
      | (Inr renterFiles, sf') \<Rightarrow>
          (Inr (filter
                  (\<lambda>siafile.
                     let staging =
                           (\<not> HasPrefix (Path (FileInfo_SiaPath siafile)) (g_siaStagingDir g @ ''/''));
                         production =
                           (\<not> HasPrefix (Path (FileInfo_SiaPath siafile)) (g_siaProdDir g @ ''/''))
                     in staging \<or> production)
                  renterFiles),
           sf'))"

definition getStagingSiaFiles ::
  "Globals \<Rightarrow> 'r Client \<Rightarrow> 'r SiaFolder \<Rightarrow> (error + FileInfo list) \<times> 'r SiaFolder" where
  "getStagingSiaFiles g api sf =
     (case RenterFilesGet api True sf of
        (Inl err, sf') \<Rightarrow> (Inl err, sf')
      | (Inr renterFiles, sf') \<Rightarrow>
          (Inr (filter
                  (\<lambda>siafile.
                     let staging =
                           (\<not> HasPrefix (Path (FileInfo_SiaPath siafile)) (g_siaStagingDir g @ ''/''))
                     in staging)
                  renterFiles),
           sf'))"

text \<open>The parameter \<open>subdir\<close> is not read: the source joins \<^verbatim>\<open>movieDir\<close>.\<close>

definition getStagingSiaDir ::
  "Globals \<Rightarrow> 'r Client \<Rightarrow> string \<Rightarrow> 'r SiaFolder
     \<Rightarrow> ((error + RenterDirectory) \<times> 'r SiaFolder) option" where
  "getStagingSiaDir g api subdir sf =
     (case getSiaPath g (Join (siaStagingDir sf) (movieDir g)) of
        None \<Rightarrow> None
      | Some sp \<Rightarrow> Some (RenterGetDir api sp sf))"

subsection \<open>siafolder.go: startup reconciliation\<close>

text \<open>
  The inner loop of \<^verbatim>\<open>uploadNonExisting\<close>: whether a listed file equals
  \<^verbatim>\<open>getSiaPath(relpath)\<close>, which is evaluated once per listed file.
\<close>

fun existsIn :: "Globals \<Rightarrow> string \<Rightarrow> FileInfo list \<Rightarrow> bool option" where
  "existsIn g relpath [] = Some False"
| "existsIn g relpath (siafile # rest) =
     (case getSiaPath g relpath of
        None \<Rightarrow> None
      | Some sp \<Rightarrow>
          if Equals (FileInfo_SiaPath siafile) sp then Some True
          else existsIn g relpath rest)"

text \<open>
  \<^verbatim>\<open>for file := range sf.files\<close>: Go fixes no order, so the order in which the loop
  yields the keys is the list the function is given. The body stores under the key it
  is at, or deletes and stores it again, and a key is visited once.
\<close>

fun uploadNonExisting_range ::
  "Globals \<Rightarrow> OS \<Rightarrow> 'r Client \<Rightarrow> FileInfo list \<Rightarrow> string list \<Rightarrow> 'r SiaFolder
     \<Rightarrow> (error option \<times> 'r SiaFolder) option" where
  "uploadNonExisting_range g os api renterFiles [] sf = Some (None, sf)"
| "uploadNonExisting_range g os api renterFiles (file # rest) sf =
     (case Rel (path sf) file of
        Inl err \<Rightarrow> Some (Some err, sf)
      | Inr relpath \<Rightarrow>
     (case existsIn g relpath renterFiles of
        None \<Rightarrow> None
      | Some exists \<Rightarrow>
          if \<not> exists then
            (case handleCreate g os api file sf of
               None \<Rightarrow> None
             | Some (Some err, sf') \<Rightarrow> Some (Some err, sf')
             | Some (None, sf') \<Rightarrow> uploadNonExisting_range g os api renterFiles rest sf')
          else uploadNonExisting_range g os api renterFiles rest sf))"

definition uploadNonExisting ::
  "Globals \<Rightarrow> OS \<Rightarrow> 'r Client \<Rightarrow> string list \<Rightarrow> 'r SiaFolder
     \<Rightarrow> (error option \<times> 'r SiaFolder) option" where
  "uploadNonExisting g os api keys sf =
     (case getSiaFiles g api sf of
        (Inl err, sf') \<Rightarrow> Some (Some err, sf')
      | (Inr renterFiles, sf') \<Rightarrow> uploadNonExisting_range g os api renterFiles keys sf')"

text \<open>
  The inner loop of \<^verbatim>\<open>uploadChanged\<close>: at the first listed file that equals
  \<^verbatim>\<open>getSiaPath(relpath)\<close> the recorded fingerprint becomes the remote size, a
  \<^verbatim>\<open>uint64\<close> converted to \<^verbatim>\<open>int64\<close>, and the write is handled.
\<close>

fun uploadChanged_match ::
  "Globals \<Rightarrow> OS \<Rightarrow> 'r Client \<Rightarrow> string \<Rightarrow> string \<Rightarrow> FileInfo list \<Rightarrow> 'r SiaFolder
     \<Rightarrow> (error option \<times> 'r SiaFolder) option" where
  "uploadChanged_match g os api file relpath [] sf = Some (None, sf)"
| "uploadChanged_match g os api file relpath (siafile # rest) sf =
     (case getSiaPath g relpath of
        None \<Rightarrow> None
      | Some sp \<Rightarrow>
          if Equals (FileInfo_SiaPath siafile) sp then
            handleFileWrite g os api file
              (sf\<lparr>files := (files sf)(file \<mapsto> FormatInt (sint (Filesize siafile)))\<rparr>)
          else uploadChanged_match g os api file relpath rest sf)"

fun uploadChanged_range ::
  "Globals \<Rightarrow> OS \<Rightarrow> 'r Client \<Rightarrow> FileInfo list \<Rightarrow> string list \<Rightarrow> 'r SiaFolder
     \<Rightarrow> (error option \<times> 'r SiaFolder) option" where
  "uploadChanged_range g os api renterFiles [] sf = Some (None, sf)"
| "uploadChanged_range g os api renterFiles (file # rest) sf =
     (case Rel (path sf) file of
        Inl err \<Rightarrow> Some (Some err, sf)
      | Inr relpath \<Rightarrow>
     (case uploadChanged_match g os api file relpath renterFiles sf of
        None \<Rightarrow> None
      | Some (Some err, sf') \<Rightarrow> Some (Some err, sf')
      | Some (None, sf') \<Rightarrow> uploadChanged_range g os api renterFiles rest sf'))"

definition uploadChanged ::
  "Globals \<Rightarrow> OS \<Rightarrow> 'r Client \<Rightarrow> string list \<Rightarrow> 'r SiaFolder
     \<Rightarrow> (error option \<times> 'r SiaFolder) option" where
  "uploadChanged g os api keys sf =
     (case getStagingSiaFiles g api sf of
        (Inl err, sf') \<Rightarrow> Some (Some err, sf')
      | (Inr renterFiles, sf') \<Rightarrow> uploadChanged_range g os api renterFiles keys sf')"

subsection \<open>siafolder.go: the promotion loop\<close>

definition moveToProduction ::
  "Globals \<Rightarrow> 'r Client \<Rightarrow> SiaPath \<Rightarrow> 'r SiaFolder
     \<Rightarrow> (error option \<times> 'r SiaFolder) option" where
  "moveToProduction g api dir sf =
     (case getSiaPath g (g_siaStagingDir g) of
        None \<Rightarrow> None
      | Some oldBase \<Rightarrow>
     (case getSiaPath g (g_siaProdDir g) of
        None \<Rightarrow> None
      | Some newBase \<Rightarrow>
     (case Rebase dir oldBase newBase of
        Inl err \<Rightarrow> Some (Some err, sf)
      | Inr newSiaPath' \<Rightarrow> Some (RenterRenamePost api dir newSiaPath' sf))))"

text \<open>
  The loop over \<^verbatim>\<open>Directories\<close>, which the source writes out once for each of the two
  listings; \<open>i\<close> is the index of the head of the list. An error of
  \<^verbatim>\<open>moveToProduction\<close> is only logged.
\<close>

fun promote ::
  "Globals \<Rightarrow> 'r Client \<Rightarrow> nat \<Rightarrow> DirectoryInfo list \<Rightarrow> 'r SiaFolder
     \<Rightarrow> 'r SiaFolder option" where
  "promote g api i [] sf = Some sf"
| "promote g api i (dir # rest) sf =
     (if i = 0 then promote g api (Suc i) rest sf
      else if AggregateMinRedundancy dir \<le> 1 then promote g api (Suc i) rest sf
      else
        (case moveToProduction g api (DirectoryInfo_SiaPath dir) sf of
           None \<Rightarrow> None
         | Some (err, sf') \<Rightarrow> promote g api (Suc i) rest sf'))"

text \<open>
  One pass of \<^verbatim>\<open>moveToProductionLoop\<close> after the timer has fired; waiting for the timer
  and for the close channel is not part of the model.
\<close>

definition moveToProductionLoop_tick ::
  "Globals \<Rightarrow> 'r Client \<Rightarrow> 'r SiaFolder \<Rightarrow> 'r SiaFolder option" where
  "moveToProductionLoop_tick g api sf =
     (case getStagingSiaDir g api (movieDir g) sf of
        None \<Rightarrow> None
      | Some (Inl err, sf1) \<Rightarrow> Some sf1
      | Some (Inr stagingMoviesDir, sf1) \<Rightarrow>
     (case promote g api 0 (Directories stagingMoviesDir) sf1 of
        None \<Rightarrow> None
      | Some sf2 \<Rightarrow>
     (case getStagingSiaDir g api (tvDir g) sf2 of
        None \<Rightarrow> None
      | Some (Inl err, sf3) \<Rightarrow> Some sf3
      | Some (Inr stagingTVDir, sf3) \<Rightarrow>
          promote g api 0 (Directories stagingTVDir) sf3)))"

subsection \<open>siafolder.go: NewSiafolder\<close>

text \<open>
  \<^verbatim>\<open>filepath.Walk\<close>: the walk function is called on the root and then, in the order of
  the directory, on everything below it; its first error ends the walk (the walk
  function of \<^verbatim>\<open>NewSiafolder\<close> never returns \<^verbatim>\<open>SkipDir\<close>).
\<close>

fun walk ::
  "(string \<Rightarrow> node \<Rightarrow> 's \<Rightarrow> error option \<times> 's) \<Rightarrow> string \<Rightarrow> node \<Rightarrow> 's \<Rightarrow> error option \<times> 's"
and walkNames ::
  "(string \<Rightarrow> node \<Rightarrow> 's \<Rightarrow> error option \<times> 's) \<Rightarrow> string \<Rightarrow> (string \<times> node) list \<Rightarrow> 's
     \<Rightarrow> error option \<times> 's" where
  "walk walkFn p (Dir entries) s =
     (case walkFn p (Dir entries) s of
        (Some err, s') \<Rightarrow> (Some err, s')
      | (None, s') \<Rightarrow> walkNames walkFn p entries s')"
| "walk walkFn p File s = walkFn p File s"
| "walk walkFn p (Failed e) s = walkFn p (Failed e) s"
| "walkNames walkFn p [] s = (None, s)"
| "walkNames walkFn p ((name, nd) # rest) s =
     (case walk walkFn (Join p name) nd s of
        (Some err, s') \<Rightarrow> (Some err, s')
      | (None, s') \<Rightarrow> walkNames walkFn p rest s')"

definition Walk ::
  "OS \<Rightarrow> string \<Rightarrow> (string \<Rightarrow> node \<Rightarrow> 's \<Rightarrow> error option \<times> 's) \<Rightarrow> 's \<Rightarrow> error option \<times> 's" where
  "Walk os root' walkFn s = walk walkFn root' (Lstat os root') s"

text \<open>\<^verbatim>\<open>watcher.Add\<close>: a path is in the watch set once adding it has succeeded.\<close>

definition watcher_Add :: "OS \<Rightarrow> string \<Rightarrow> 'r SiaFolder \<Rightarrow> error option \<times> 'r SiaFolder" where
  "watcher_Add os p sf =
     (case WatcherAdd os p of
        Some err \<Rightarrow> (Some err, sf)
      | None \<Rightarrow> (None, sf\<lparr>watcher := map_option (\<lambda>w. w @ [p]) (watcher sf)\<rparr>))"

text \<open>
  The walk function of \<^verbatim>\<open>NewSiafolder\<close>. It compares the walked path with \<^verbatim>\<open>path\<close>, the
  argument of \<^verbatim>\<open>NewSiafolder\<close>, while the walk starts at \<^verbatim>\<open>abspath\<close>.
\<close>

definition NewSiafolder_walkFn ::
  "OS \<Rightarrow> string \<Rightarrow> string \<Rightarrow> node \<Rightarrow> 'r SiaFolder \<Rightarrow> error option \<times> 'r SiaFolder" where
  "NewSiafolder_walkFn os path' walkpath f sf =
     (case f of
        Failed err \<Rightarrow> (Some err, sf)
      | Dir entries \<Rightarrow>
          if walkpath = path' then (None, sf)
          else (case watcher_Add os walkpath sf of
                  (err, sf') \<Rightarrow> (None, sf'\<lparr>dirs := (dirs sf')(walkpath \<mapsto> False)\<rparr>))
      | File \<Rightarrow>
          if walkpath = path' then (None, sf)
          else (case checksumFile os walkpath of
                  Inl err \<Rightarrow> (Some err, sf)
                | Inr checksum \<Rightarrow> (None, sf\<lparr>files := (files sf)(walkpath \<mapsto> checksum)\<rparr>)))"

text \<open>
  \<^verbatim>\<open>NewSiafolder\<close> on a client whose node is in state \<open>r\<close>, in two parts. Where the
  source returns \<^verbatim>\<open>nil\<close> and an error, the folder built so far is returned with the
  error, so that the requests already sent stay visible.

  \<open>NewSiafolder_walk\<close> is the function up to the end of the walk: the absolute path,
  the fields of the folder, the watcher on the root, and the walk.
\<close>

definition NewSiafolder_walk ::
  "Globals \<Rightarrow> OS \<Rightarrow> string \<Rightarrow> 'r \<Rightarrow> error option \<times> 'r SiaFolder" where
  "NewSiafolder_walk g os path' r =
     (let sf0 = \<lparr>path = [], client = r, calls = [], archive = False, siaStagingDir = [],
                 siaProdDir = [], watcher = None, files = Map.empty, dirs = Map.empty\<rparr>
      in
      case Abs os path' of
        Inl err \<Rightarrow> (Some err, sf0)
      | Inr abspath \<Rightarrow>
     (let sf1 = sf0\<lparr>path := abspath, archive := g_archive,
                    siaStagingDir := g_siaStagingDir g, siaProdDir := g_siaProdDir g\<rparr>
      in
      case NewWatcher os of
        Some err \<Rightarrow> (Some err, sf1)
      | None \<Rightarrow>
     (case watcher_Add os abspath (sf1\<lparr>watcher := Some []\<rparr>) of
        (Some err, sf2) \<Rightarrow> (Some err, sf1)
      | (None, sf2) \<Rightarrow> Walk os abspath (NewSiafolder_walkFn os path') sf2)))"

text \<open>
  \<open>NewSiafolder\<close> goes on with the two uploads; \<open>keys1\<close> and \<open>keys2\<close> are the orders in
  which their range loops yield the keys. Starting the two goroutines is not part of
  the model.
\<close>

definition NewSiafolder ::
  "Globals \<Rightarrow> OS \<Rightarrow> 'r Client \<Rightarrow> string list \<Rightarrow> string list \<Rightarrow> string \<Rightarrow> 'r
     \<Rightarrow> (error option \<times> 'r SiaFolder) option" where
  "NewSiafolder g os api keys1 keys2 path' r =
     (case NewSiafolder_walk g os path' r of
        (Some err, sf) \<Rightarrow> Some (Some err, sf)
      | (None, sf) \<Rightarrow>
     (case uploadNonExisting g os api keys1 sf of
        None \<Rightarrow> None
      | Some (Some err, sf') \<Rightarrow> Some (Some err, sf')
      | Some (None, sf') \<Rightarrow>
     (case uploadChanged g os api keys2 sf' of
        None \<Rightarrow> None
      | Some (Some err, sf'') \<Rightarrow> Some (Some err, sf'')
      | Some (None, sf'') \<Rightarrow> Some (None, sf''))))"

section \<open>A node to run the code against\<close>

text \<open>
  A Sia node as the requests see it: its state is the list of the files it stores.
  An upload reads the size of the local file and fails when the remote path is taken;
  a delete or a query of a path that is not stored fails with Sia's message; a rename
  moves the directory's files; a directory query is answered from a table of
  listings. The general theorems below hold for every client; this one is for
  running the code on concrete inputs.
\<close>

definition stored :: "FileInfo list \<Rightarrow> SiaPath \<Rightarrow> bool" where
  "stored r sp = list_ex (\<lambda>f. FileInfo_SiaPath f = sp) r"

definition renamed :: "SiaPath \<Rightarrow> SiaPath \<Rightarrow> FileInfo \<Rightarrow> FileInfo" where
  "renamed sp sp' f =
     (if prefix (Path sp @ ''/'') (Path (FileInfo_SiaPath f))
      then FileInfo (SiaPath (Path sp' @ drop (length (Path sp)) (Path (FileInfo_SiaPath f))))
             (Filesize f)
      else f)"

fun node_api :: "OS \<Rightarrow> (SiaPath \<Rightarrow> RenterDirectory option) \<Rightarrow> (FileInfo list) Client" where
  "node_api os listing (FilesGet cached) r = (FilesOf r, r)"
| "node_api os listing (FileGet sp) r =
     (case find (\<lambda>f. FileInfo_SiaPath f = sp) r of
        Some f \<Rightarrow> (FileOf f, r)
      | None \<Rightarrow> (Failure ''no file known with that path'', r))"
| "node_api os listing (UploadPost abspath sp dp pp) r =
     (if stored r sp then (Failure ''upload failed: a file already exists at that location'', r)
      else (case Stat os abspath of
              Inl err \<Rightarrow> (Failure err, r)
            | Inr stat \<Rightarrow> (Done, r @ [FileInfo sp (word_of_int (Size stat))])))"
| "node_api os listing (DeletePost sp) r =
     (if stored r sp then (Done, filter (\<lambda>f. FileInfo_SiaPath f \<noteq> sp) r)
      else (Failure ''no file known with that path'', r))"
| "node_api os listing (RenamePost sp sp') r = (Done, map (renamed sp sp') r)"
| "node_api os listing (GetDir sp) r =
     (case listing sp of
        Some d \<Rightarrow> (DirectoryOf d, r)
      | None \<Rightarrow> (Failure ''no such directory'', r))"

text \<open>A node that cannot be reached: every request fails.\<close>

definition offline :: "'r Client" where
  "offline c r = (Failure ''connection refused'', r)"

section \<open>What a handler sends\<close>

text \<open>
  The requests the code is observed to send, for stating the theorems:
  \<open>createRequests\<close> is the upload \<^verbatim>\<open>handleCreate\<close> sends for a folder rooted at
  \<open>root'\<close>, none in a dry run or when the path does not resolve. \<open>checkRequests\<close> is
  the query \<^verbatim>\<open>isFile\<close> sends. \<open>isFailure\<close> tells a failed answer. \<open>renameFor\<close> is
  the rename \<^verbatim>\<open>moveToProduction\<close> sends for a directory, none when it cannot be
  rebased.
\<close>

definition isFailure :: "Response \<Rightarrow> bool" where
  "isFailure resp = (case resp of Failure err \<Rightarrow> True | _ \<Rightarrow> False)"

definition createRequests :: "Globals \<Rightarrow> OS \<Rightarrow> string \<Rightarrow> string \<Rightarrow> Call list" where
  "createRequests g os root' file =
     (if g_dryRun g then []
      else (case Abs os file of
              Inl err \<Rightarrow> []
            | Inr abspath \<Rightarrow>
          (case Rel root' file of
              Inl err \<Rightarrow> []
            | Inr relpath \<Rightarrow>
          (case getSiaPath g relpath of
              None \<Rightarrow> []
            | Some sp \<Rightarrow> [UploadPost abspath sp (dataPieces g) (parityPieces g)]))))"

definition checkRequests :: "string \<Rightarrow> string \<Rightarrow> Call list" where
  "checkRequests root' file =
     (case Rel root' file of
        Inl err \<Rightarrow> []
      | Inr relpath \<Rightarrow>
          (case newSiaPath relpath of None \<Rightarrow> [] | Some sp \<Rightarrow> [FileGet sp]))"

definition renameFor :: "SiaPath \<Rightarrow> SiaPath \<Rightarrow> DirectoryInfo \<Rightarrow> Call list" where
  "renameFor oldBase newBase dir =
     (case Rebase (DirectoryInfo_SiaPath dir) oldBase newBase of
        Inl err \<Rightarrow> []
      | Inr sp \<Rightarrow> [RenamePost (DirectoryInfo_SiaPath dir) sp])"

text \<open>
  For startup reconciliation: \<open>stagingOnly\<close> says that a local file maps to a remote
  path under the staging directory and not under the production directory; \<open>settled\<close>
  that a first run has dealt with it (its remote path is stored on the node, or, in a
  dry run, its checksum was taken).
\<close>

definition stagingOnly :: "Globals \<Rightarrow> string \<Rightarrow> string \<Rightarrow> bool" where
  "stagingOnly g root' file =
     (case Rel root' file of
        Inl err \<Rightarrow> False
      | Inr relpath \<Rightarrow>
          (case getSiaPath g relpath of
             None \<Rightarrow> False
           | Some sp \<Rightarrow>
               HasPrefix (Path sp) (g_siaStagingDir g @ ''/'') \<and>
               \<not> HasPrefix (Path sp) (g_siaProdDir g @ ''/'')))"

definition settled :: "Globals \<Rightarrow> OS \<Rightarrow> string \<Rightarrow> FileInfo list \<Rightarrow> string \<Rightarrow> bool" where
  "settled g os root' r file =
     (case Rel root' file of
        Inl err \<Rightarrow> False
      | Inr relpath \<Rightarrow>
          (case getSiaPath g relpath of
             None \<Rightarrow> False
           | Some sp \<Rightarrow>
               stored r sp \<or>
               (g_dryRun g \<and> (case Abs os file of Inl err \<Rightarrow> False | Inr a \<Rightarrow> True) \<and>
                (case checksumFile os file of Inl err \<Rightarrow> False | Inr c \<Rightarrow> True))))"

section \<open>A folder to run the code on\<close>

text \<open>
  The watched folder \<^verbatim>\<open>/home/u/test\<close> holds \<^verbatim>\<open>a.txt\<close> (20 bytes) and \<^verbatim>\<open>sub/b.txt\<close>
  (5 bytes); the working directory is \<^verbatim>\<open>/home/u\<close>; the staging and production
  directories are \<^verbatim>\<open>staging\<close> and \<^verbatim>\<open>production\<close>. \<open>example_folder r\<close> is the folder
  on a node in state \<open>r\<close>, with \<^verbatim>\<open>a.txt\<close> indexed at 10 bytes and its field
  \<^verbatim>\<open>archive\<close> off, for the handlers that read the field.
\<close>

definition example_globals :: Globals where
  "example_globals =
     \<lparr>g_dryRun = False, g_siaStagingDir = ''staging'',
      g_siaProdDir = ''production'', movieDir = ''movies'', tvDir = ''tv'',
      dataPieces = 10, parityPieces = 30\<rparr>"

definition example_os :: OS where
  "example_os =
     \<lparr>Getwd = Inr ''/home/u'',
      Stat = (\<lambda>p. if p = ''/home/u/test/a.txt'' then Inr \<lparr>Size = 20, IsDir = False\<rparr>
                  else if p = ''/home/u/test/sub/b.txt'' then Inr \<lparr>Size = 5, IsDir = False\<rparr>
                  else Inl ''no such file or directory''),
      Lstat = (\<lambda>p. if p = ''/home/u/test''
                   then Dir [(''a.txt'', File), (''sub'', Dir [(''b.txt'', File)])]
                   else Failed ''no such file or directory''),
      NewWatcher = None,
      WatcherAdd = (\<lambda>p. None)\<rparr>"

definition example_folder :: "'r \<Rightarrow> 'r SiaFolder" where
  "example_folder r =
     \<lparr>path = ''/home/u/test'', client = r, calls = [], archive = False,
      siaStagingDir = ''staging'', siaProdDir = ''production'',
      watcher = Some [''/home/u/test''],
      files = [''/home/u/test/a.txt'' \<mapsto> ''10''], dirs = Map.empty\<rparr>"

text \<open>
  The same with the production directory \<^verbatim>\<open>fuse\<close> above the staging directory
  \<^verbatim>\<open>fuse/staging\<close>.
\<close>

definition nested_globals :: Globals where
  "nested_globals =
     \<lparr>g_dryRun = False, g_siaStagingDir = ''fuse/staging'',
      g_siaProdDir = ''fuse'', movieDir = ''movies'', tvDir = ''tv'',
      dataPieces = 10, parityPieces = 30\<rparr>"

definition example_keys :: "string list" where
  "example_keys = [''/home/u/test/a.txt'', ''/home/u/test/sub/b.txt'']"

definition example_listing :: "SiaPath \<Rightarrow> RenterDirectory option" where
  "example_listing sp =
     (if sp = SiaPath ''staging/staging/movies''
      then Some \<lparr>Directories = [DirectoryInfo (SiaPath ''staging/staging/movies'') 2], Files = []\<rparr>
      else None)"

text \<open>A listing of the same directory with one child, at redundancy 1.5.\<close>

definition example_listing_child :: "SiaPath \<Rightarrow> RenterDirectory option" where
  "example_listing_child sp =
     (if sp = SiaPath ''staging/staging/movies''
      then Some \<lparr>Directories = [DirectoryInfo (SiaPath ''staging/staging/movies'') 2,
                                DirectoryInfo (SiaPath ''staging/staging/movies/b'') (3 / 2)],
                 Files = []\<rparr>
      else None)"

section \<open>Requests and handlers: basic facts\<close>

lemma post_eq:
  "api c (client sf) = (resp, r') \<Longrightarrow>
   post api c sf =
     (case resp of Failure err \<Rightarrow> Some err | _ \<Rightarrow> None,
      sf\<lparr>client := r', calls := calls sf @ [c]\<rparr>)"
  by (simp add: post_def request_def split: Response.splits)

lemma post_calls:
  "post api c sf = (e, sf') \<Longrightarrow>
   calls sf' = calls sf @ [c] \<and> path sf' = path sf \<and> files sf' = files sf \<and>
   archive sf' = archive sf"
  by (auto simp: post_def request_def split: prod.splits Response.splits)

lemma handleRemove_eq:
  assumes "Rel (path sf) file = Inr relpath"
    and "g_dryRun g \<or> getSiaPath g relpath = Some sp"
    and "api (DeletePost sp) (client sf) = (resp, r')"
  shows "handleRemove g api file sf =
           Some (if g_dryRun g then (None, sf\<lparr>files := (files sf)(file := None)\<rparr>)
                 else (case resp of
                         Failure err \<Rightarrow>
                           (Some (''error removing '' @ file @ '': '' @ err),
                            sf\<lparr>client := r', calls := calls sf @ [DeletePost sp]\<rparr>)
                       | _ \<Rightarrow>
                           (None,
                            sf\<lparr>client := r', calls := calls sf @ [DeletePost sp],
                               files := (files sf)(file := None)\<rparr>)))"
  using assms
  by (auto simp: handleRemove_def RenterDeletePost_def post_eq split: Response.splits)


lemma handleCreate_calls:
  assumes "handleCreate g os api file sf = Some (e, sf')"
  shows "calls sf' = calls sf @ createRequests g os (path sf) file \<and> path sf' = path sf \<and>
         archive sf' = archive sf"
  using assms
  by (auto simp: handleCreate_def createRequests_def RenterUploadPost_def dest!: post_calls
           split: sum.splits option.splits if_splits prod.splits)

lemma isFile_calls:
  assumes "isFile api file sf = Some (x, sf')"
  shows "calls sf' = calls sf @ checkRequests (path sf) file \<and> path sf' = path sf"
  using assms
  by (auto simp: isFile_def checkRequests_def RenterFileGet_def request_def
           split: sum.splits option.splits prod.splits Response.splits)

text \<open>\<^verbatim>\<open>handleCreate\<close> panics only on a relative path that is no valid remote path.\<close>

lemma handleCreate_returns:
  assumes "case Rel (path sf) file of Inl e \<Rightarrow> True | Inr relpath \<Rightarrow> getSiaPath g relpath \<noteq> None"
  shows "\<exists>e sf'. handleCreate g os api file sf = Some (e, sf')"
  using assms
  by (auto simp: handleCreate_def split: sum.splits option.splits prod.splits)

section \<open>The example folder: evaluated facts\<close>

lemma ex_rel_a: "Rel ''/home/u/test'' ''/home/u/test/a.txt'' = Inr ''a.txt''"
  by code_simp

lemma ex_rel_b: "Rel ''/home/u/test'' ''/home/u/test/sub/b.txt'' = Inr ''sub/b.txt''"
  by code_simp

lemma ex_rel_gone: "Rel ''/home/u/test'' ''/home/u/test/gone.txt'' = Inr ''gone.txt''"
  by code_simp

lemma ex_abs_a: "Abs example_os ''/home/u/test/a.txt'' = Inr ''/home/u/test/a.txt''"
  by code_simp

lemma ex_abs_b: "Abs example_os ''/home/u/test/sub/b.txt'' = Inr ''/home/u/test/sub/b.txt''"
  by code_simp

lemma ex_abs_gone: "Abs example_os ''/home/u/test/gone.txt'' = Inr ''/home/u/test/gone.txt''"
  by code_simp

lemma ex_abs_test: "Abs example_os ''test'' = Inr ''/home/u/test''"
  by code_simp

lemma ex_abs_root: "Abs example_os ''/home/u/test'' = Inr ''/home/u/test''"
  by code_simp

lemma ex_sp_a: "getSiaPath example_globals ''a.txt'' = Some (SiaPath ''staging/a.txt'')"
  by code_simp

lemma ex_sp_b: "getSiaPath example_globals ''sub/b.txt'' = Some (SiaPath ''staging/sub/b.txt'')"
  by code_simp

lemma ex_sp_gone: "getSiaPath example_globals ''gone.txt'' = Some (SiaPath ''staging/gone.txt'')"
  by code_simp

lemma ex_new_a: "newSiaPath ''a.txt'' = Some (SiaPath ''a.txt'')"
  by code_simp

lemma ex_new_gone: "newSiaPath ''gone.txt'' = Some (SiaPath ''gone.txt'')"
  by code_simp

lemma ex_sum_a: "checksumFile example_os ''/home/u/test/a.txt'' = Inr ''20''"
  by code_simp

lemma ex_sum_b: "checksumFile example_os ''/home/u/test/sub/b.txt'' = Inr ''5''"
  by code_simp

lemma ex_sum_gone:
  "checksumFile example_os ''/home/u/test/gone.txt'' = Inl ''no such file or directory''"
  by code_simp

lemma ex_old_base:
  "getSiaPath example_globals (g_siaStagingDir example_globals) = Some (SiaPath ''staging/staging'')"
  by code_simp

lemma ex_new_base:
  "getSiaPath example_globals (g_siaProdDir example_globals) = Some (SiaPath ''staging/production'')"
  by code_simp

lemma ex_movies:
  "getSiaPath example_globals (Join ''staging'' (movieDir example_globals)) =
     Some (SiaPath ''staging/staging/movies'')"
  by code_simp

lemma ex_not_known: "\<not> Contains ''connection refused'' ''no file known''"
  by code_simp

lemma ex_known: "Contains ''no file known with that path'' ''no file known''"
  by code_simp

lemmas ex_facts = ex_rel_a ex_rel_b ex_rel_gone ex_abs_a ex_abs_b ex_abs_gone ex_abs_test
  ex_abs_root ex_sp_a ex_sp_b ex_sp_gone ex_new_a ex_new_gone ex_sum_a ex_sum_b ex_sum_gone
  ex_not_known ex_known

lemma ex_folder_simps [simp]:
  "path (example_folder r) = ''/home/u/test''"
  "client (example_folder r) = r"
  "calls (example_folder r) = []"
  "archive (example_folder r) = False"
  "siaStagingDir (example_folder r) = ''staging''"
  "files (example_folder r) = [''/home/u/test/a.txt'' \<mapsto> ''10'']"
  by (simp_all add: example_folder_def)

lemma ex_globals_simps [simp]:
  "g_dryRun example_globals = False"
  "g_siaStagingDir example_globals = ''staging''"
  "g_siaProdDir example_globals = ''production''"
  "dataPieces example_globals = 10"
  "parityPieces example_globals = 30"
  "movieDir example_globals = ''movies''"
  "tvDir example_globals = ''tv''"
  by (simp_all add: example_globals_def)


section \<open>The promotion loop\<close>

lemma moveToProduction_calls:
  assumes "getSiaPath g (g_siaStagingDir g) = Some oldBase"
    and "getSiaPath g (g_siaProdDir g) = Some newBase"
  shows "\<exists>e sf'. moveToProduction g api dir sf = Some (e, sf') \<and>
           calls sf' = calls sf @ renameFor oldBase newBase (DirectoryInfo dir red)"
  using assms
  by (auto simp: moveToProduction_def renameFor_def RenterRenamePost_def post_def request_def
           split: sum.splits prod.splits Response.splits)

lemma promote_calls:
  assumes "getSiaPath g (g_siaStagingDir g) = Some oldBase"
    and "getSiaPath g (g_siaProdDir g) = Some newBase"
  shows "\<exists>sf'. promote g api i ds sf = Some sf' \<and>
           calls sf' = calls sf @
             concat (map (renameFor oldBase newBase)
                      (filter (\<lambda>d. 1 < AggregateMinRedundancy d) (if i = 0 then tl ds else ds)))"
proof (induction ds arbitrary: i sf)
  case Nil
  then show ?case by simp
next
  case (Cons d ds)
  show ?case
  proof (cases "i = 0")
    case True
    then show ?thesis using Cons.IH [of "Suc i" sf] by simp
  next
    case False
    show ?thesis
    proof (cases "AggregateMinRedundancy d \<le> 1")
      case True
      then show ?thesis using False Cons.IH [of "Suc i" sf] by simp
    next
      case hi: False
      obtain e sf1 where mv: "moveToProduction g api (DirectoryInfo_SiaPath d) sf = Some (e, sf1)"
        and c1: "calls sf1 = calls sf @ renameFor oldBase newBase d"
        using moveToProduction_calls [OF assms, where api = api and dir = "DirectoryInfo_SiaPath d"
                and sf = sf and red = "AggregateMinRedundancy d"]
        by auto
      show ?thesis using False hi mv c1 Cons.IH [of "Suc i" sf1] by auto
    qed
  qed
qed

lemma Split_not_Nil: "Split s \<noteq> []"
  by (induction s) (auto split: list.splits)

lemma Split_append: "Split (a @ CHR ''/'' # b) = Split a @ Split b"
proof (induction a)
  case Nil
  then show ?case by simp
next
  case (Cons c cs)
  then show ?case
    using Split_not_Nil [of cs] by (cases "Split cs") auto
qed

lemma validatePath_iff:
  "validatePath p = None \<longleftrightarrow> \<not> list_ex (\<lambda>e. e = [] \<or> e = ''.'' \<or> e = ''..'') (Split p)"
  by (cases p) (auto simp: validatePath_def)

lemma valid_join:
  assumes "validatePath a = None" and "validatePath b = None"
  shows "validatePath (a @ ''/'' @ b) = None"
  using assms by (simp add: validatePath_iff Split_append)

lemma valid_no_slash:
  assumes "validatePath p = None"
  shows "\<not> prefix ''/'' p \<and> \<not> suffix ''/'' p"
proof -
  have "\<not> prefix ''/'' p"
    using assms by (cases p) (auto simp: validatePath_iff)
  moreover have "\<not> suffix ''/'' p"
  proof
    assume "suffix ''/'' p"
    then obtain q where "p = q @ ''/''" by (auto simp: suffix_def)
    then have "Split p = Split q @ [[]]" using Split_append [of q "[]"] by simp
    then show False using assms by (simp add: validatePath_iff)
  qed
  ultimately show ?thesis by simp
qed

lemma clean_valid: "validatePath p = None \<Longrightarrow> clean p = p"
  using valid_no_slash [of p] by (simp add: clean_def TrimPrefix_def TrimSuffix_def)

lemma clean_slash_valid: "validatePath p = None \<Longrightarrow> clean (''/'' @ p) = p"
  using valid_no_slash [of p] by (simp add: clean_def TrimPrefix_def TrimSuffix_def)

lemma Rebase_below:
  assumes "validatePath new = None" and "validatePath rest = None"
  shows "Rebase (SiaPath (old @ ''/'' @ rest)) (SiaPath old) (SiaPath new) =
           Inr (SiaPath (new @ ''/'' @ rest))"
proof -
  have ne: "rest \<noteq> []" using assms(2) by (auto simp: validatePath_def)
  have v: "validatePath (new @ ''/'' @ rest) = None" using assms by (rule valid_join)
  show ?thesis
    using ne clean_slash_valid [OF assms(2)] clean_valid [OF v] v
    by (simp add: Rebase_def HasPrefix_def TrimPrefix_def SiaPath_Join_def NewSiaPath_def)
qed

lemma NewSiaPath_valid: "NewSiaPath s = Inr sp \<Longrightarrow> validatePath (Path sp) = None"
  by (auto simp: NewSiaPath_def split: option.splits)

text \<open>
  Rebasing keeps the relative path: a directory below the staging base is renamed to the
  same relative path below the production base.
\<close>

lemma renameFor_below:
  assumes "getSiaPath g (g_siaProdDir g) = Some newBase"
    and "validatePath rest = None"
  shows "renameFor (SiaPath old) newBase (DirectoryInfo (SiaPath (old @ ''/'' @ rest)) red) =
           [RenamePost (SiaPath (old @ ''/'' @ rest)) (SiaPath (Path newBase @ ''/'' @ rest))]"
proof -
  have "validatePath (Path newBase) = None"
    using assms(1) NewSiaPath_valid [of _ newBase]
    by (auto simp: getSiaPath_def newSiaPath_def split: sum.splits)
  then show ?thesis
    using Rebase_below [OF _ assms(2), of "Path newBase" old]
    by (simp add: renameFor_def)
qed

text \<open>
  What the loop sends for a listing: exactly the renames of the entries after index 0
  whose aggregate minimum redundancy is strictly above 1, in the order of the listing;
  the entry at index 0 is never renamed. The bases are the ones \<^verbatim>\<open>moveToProduction\<close>
  computes, and an entry that cannot be rebased from the old one is skipped.
\<close>

lemma promote_requests:
  assumes "getSiaPath g (g_siaStagingDir g) = Some oldBase"
    and "getSiaPath g (g_siaProdDir g) = Some newBase"
  shows "\<exists>sf'. promote g api 0 ds sf = Some sf' \<and>
           calls sf' = calls sf @
             concat (map (renameFor oldBase newBase)
                      (filter (\<lambda>d. 1 < AggregateMinRedundancy d) (tl ds)))"
  using promote_calls [OF assms, where api = api and i = 0 and ds = ds and sf = sf] by simp

text \<open>
  Claim C1: in each tick, an entry of the listing returned for a staging category is
  promoted, by a rename from its staging path to the rebased production path, if and
  only if its aggregate minimum redundancy is strictly above 1; the entry at index 0
  never is. The threshold and the skipped index are as the claim says, but the rename is
  not: \<^verbatim>\<open>moveToProduction\<close> takes its two bases from \<^verbatim>\<open>getSiaPath\<close>, which puts the
  staging directory in front once more, so with the directories \<^verbatim>\<open>staging\<close> and
  \<^verbatim>\<open>production\<close> it rebases from \<^verbatim>\<open>staging/staging\<close> to \<^verbatim>\<open>staging/production\<close>. In a
  tick on a node that lists the child \<^verbatim>\<open>staging/staging/movies/b\<close> at redundancy 1.5, the
  child is renamed to \<^verbatim>\<open>staging/production/movies/b\<close>, which is under the staging
  directory and not under the production directory; and for the directory
  \<^verbatim>\<open>staging/sub\<close> at redundancy 1.5 no rename is sent at all.
\<close>

theorem moveToProduction_doubled_prefix:
  "getSiaPath example_globals (g_siaStagingDir example_globals) = Some (SiaPath ''staging/staging'')
   \<and> getSiaPath example_globals (g_siaProdDir example_globals) =
       Some (SiaPath ''staging/production'')
   \<and> moveToProductionLoop_tick example_globals (node_api example_os example_listing_child)
         (example_folder []) =
       Some ((example_folder [])
               \<lparr>calls := [GetDir (SiaPath ''staging/staging/movies''),
                          RenamePost (SiaPath ''staging/staging/movies/b'')
                            (SiaPath ''staging/production/movies/b''),
                          GetDir (SiaPath ''staging/staging/movies''),
                          RenamePost (SiaPath ''staging/staging/movies/b'')
                            (SiaPath ''staging/production/movies/b'')]\<rparr>)
   \<and> HasPrefix ''staging/production/movies/b'' (g_siaStagingDir example_globals @ ''/'')
   \<and> \<not> HasPrefix ''staging/production/movies/b'' (g_siaProdDir example_globals @ ''/'')
   \<and> promote example_globals (node_api example_os example_listing_child) 0
         [DirectoryInfo (SiaPath ''staging'') 2, DirectoryInfo (SiaPath ''staging/sub'') (3 / 2)]
         (example_folder []) = Some (example_folder [])"
proof -
  have rb: "Rebase (SiaPath ''staging/staging/movies/b'') (SiaPath ''staging/staging'')
              (SiaPath ''staging/production'') = Inr (SiaPath ''staging/production/movies/b'')"
    by code_simp
  have rs: "Rebase (SiaPath ''staging/sub'') (SiaPath ''staging/staging'')
              (SiaPath ''staging/production'') =
            Inl ''staging/staging isn't the base of staging/sub''"
    by code_simp
  have tick: "moveToProductionLoop_tick example_globals (node_api example_os example_listing_child)
         (example_folder []) =
       Some ((example_folder [])
               \<lparr>calls := [GetDir (SiaPath ''staging/staging/movies''),
                          RenamePost (SiaPath ''staging/staging/movies/b'')
                            (SiaPath ''staging/production/movies/b''),
                          GetDir (SiaPath ''staging/staging/movies''),
                          RenamePost (SiaPath ''staging/staging/movies/b'')
                            (SiaPath ''staging/production/movies/b'')]\<rparr>)"
    using ex_movies ex_old_base ex_new_base
    by (simp add: moveToProductionLoop_tick_def getStagingSiaDir_def RenterGetDir_def request_def
          example_listing_child_def moveToProduction_def rb RenterRenamePost_def post_def)
  have sub: "promote example_globals (node_api example_os example_listing_child) 0
         [DirectoryInfo (SiaPath ''staging'') 2, DirectoryInfo (SiaPath ''staging/sub'') (3 / 2)]
         (example_folder []) = Some (example_folder [])"
    using ex_old_base ex_new_base by (simp add: moveToProduction_def rs)
  show ?thesis
    using ex_old_base ex_new_base tick sub by (simp add: HasPrefix_def)
qed

text \<open>
  Claim C2: on every tick the directory query made for the tv category asks for the tv
  category's own staging path. The code does not do this: \<^verbatim>\<open>getStagingSiaDir\<close> joins
  \<^verbatim>\<open>movieDir\<close> whatever category it is given, so with the categories \<^verbatim>\<open>movies\<close> and \<^verbatim>\<open>tv\<close>
  both queries of a tick ask for the movies directory.
\<close>

theorem tick_queries_movies_twice:
  "moveToProductionLoop_tick example_globals (node_api example_os example_listing)
     (example_folder []) =
     Some ((example_folder [])\<lparr>calls := [GetDir (SiaPath ''staging/staging/movies''),
                                        GetDir (SiaPath ''staging/staging/movies'')]\<rparr>)"
  using ex_movies
  by (simp add: moveToProductionLoop_tick_def getStagingSiaDir_def RenterGetDir_def request_def
        example_listing_def)

section \<open>The remote listings of startup reconciliation\<close>

text \<open>
  Claim C3: \<^verbatim>\<open>uploadNonExisting\<close> works on the remote files under the staging or the
  production directory, and on no others. The code does not do this: \<^verbatim>\<open>getSiaFiles\<close>
  keeps a file when it is outside the staging directory or outside the production
  directory, so a file under neither is kept.
\<close>

theorem getSiaFiles_keeps_foreign_file:
  "getSiaFiles example_globals (node_api example_os Map.empty)
     (example_folder [FileInfo (SiaPath ''other/x.txt'') 3,
                      FileInfo (SiaPath ''staging/a.txt'') 10,
                      FileInfo (SiaPath ''production/b.txt'') 7]) =
   (Inr [FileInfo (SiaPath ''other/x.txt'') 3,
         FileInfo (SiaPath ''staging/a.txt'') 10,
         FileInfo (SiaPath ''production/b.txt'') 7],
    (example_folder [FileInfo (SiaPath ''other/x.txt'') 3,
                     FileInfo (SiaPath ''staging/a.txt'') 10,
                     FileInfo (SiaPath ''production/b.txt'') 7])\<lparr>calls := [FilesGet True]\<rparr>)"
  by (simp add: getSiaFiles_def RenterFilesGet_def request_def HasPrefix_def)

text \<open>
  Claim C4: \<^verbatim>\<open>uploadChanged\<close> works on the remote files under the staging directory, so
  that an indexed file whose remote size differs is uploaded again. The code does not do
  this: \<^verbatim>\<open>getStagingSiaFiles\<close> keeps the files outside the staging directory, no indexed
  file has a counterpart among them, and \<^verbatim>\<open>a.txt\<close>, 20 bytes on disk and 10 bytes on
  the node, is left alone: the only request is the listing, and the index is unchanged.
\<close>

theorem uploadChanged_skips_staging_file:
  "getStagingSiaFiles example_globals (node_api example_os Map.empty)
     (example_folder [FileInfo (SiaPath ''staging/a.txt'') 10, FileInfo (SiaPath ''other/x.txt'') 3]) =
     (Inr [FileInfo (SiaPath ''other/x.txt'') 3],
      (example_folder [FileInfo (SiaPath ''staging/a.txt'') 10, FileInfo (SiaPath ''other/x.txt'') 3])
        \<lparr>calls := [FilesGet True]\<rparr>)
   \<and> uploadChanged example_globals example_os (node_api example_os Map.empty)
       [''/home/u/test/a.txt'']
       (example_folder [FileInfo (SiaPath ''staging/a.txt'') 10, FileInfo (SiaPath ''other/x.txt'') 3]) =
     Some (None,
       (example_folder [FileInfo (SiaPath ''staging/a.txt'') 10, FileInfo (SiaPath ''other/x.txt'') 3])
         \<lparr>calls := [FilesGet True]\<rparr>)"
proof -
  have f: "getStagingSiaFiles example_globals (node_api example_os Map.empty)
     (example_folder [FileInfo (SiaPath ''staging/a.txt'') 10, FileInfo (SiaPath ''other/x.txt'') 3]) =
     (Inr [FileInfo (SiaPath ''other/x.txt'') 3],
      (example_folder [FileInfo (SiaPath ''staging/a.txt'') 10, FileInfo (SiaPath ''other/x.txt'') 3])
        \<lparr>calls := [FilesGet True]\<rparr>)"
    by (simp add: getStagingSiaFiles_def RenterFilesGet_def request_def HasPrefix_def)
  show ?thesis
    by (simp add: f uploadChanged_def ex_facts Equals_def)
qed

section \<open>The startup walk\<close>

text \<open>
  Claim C9: the startup walk registers every directory below the root in the directory
  index and never the root itself. The code does not do this for a relative root: the
  walk function skips the walked path that equals \<^verbatim>\<open>path\<close>, the argument as given, but
  the walk runs over the absolute path. Started on \<^verbatim>\<open>test\<close> in \<^verbatim>\<open>/home/u\<close>, the root
  \<^verbatim>\<open>/home/u/test\<close> is in the directory index (and added to the watcher a second time).
\<close>

theorem NewSiafolder_registers_root:
  "NewSiafolder example_globals example_os (node_api example_os Map.empty)
     example_keys example_keys ''test'' [] =
   Some (None,
     \<lparr>path = ''/home/u/test'',
      client = [FileInfo (SiaPath ''staging/a.txt'') 20, FileInfo (SiaPath ''staging/sub/b.txt'') 5],
      calls = [FilesGet True,
               UploadPost ''/home/u/test/a.txt'' (SiaPath ''staging/a.txt'') 10 30,
               UploadPost ''/home/u/test/sub/b.txt'' (SiaPath ''staging/sub/b.txt'') 10 30,
               FilesGet True],
      archive = True, siaStagingDir = ''staging'', siaProdDir = ''production'',
      watcher = Some [''/home/u/test'', ''/home/u/test'', ''/home/u/test/sub''],
      files = [''/home/u/test/a.txt'' \<mapsto> ''20'', ''/home/u/test/sub/b.txt'' \<mapsto> ''5''],
      dirs = [''/home/u/test'' \<mapsto> False, ''/home/u/test/sub'' \<mapsto> False]\<rparr>)"
proof -
  have j1: "Join ''/home/u/test'' ''a.txt'' = ''/home/u/test/a.txt''" by code_simp
  have j2: "Join ''/home/u/test'' ''sub'' = ''/home/u/test/sub''" by code_simp
  have j3: "Join ''/home/u/test/sub'' ''b.txt'' = ''/home/u/test/sub/b.txt''" by code_simp
  have l: "Lstat example_os ''/home/u/test'' =
             Dir [(''a.txt'', File), (''sub'', Dir [(''b.txt'', File)])]"
    by (simp add: example_os_def)
  have w: "WatcherAdd example_os = (\<lambda>p. None)" "NewWatcher example_os = None"
    by (simp_all add: example_os_def)
  have s: "Stat example_os ''/home/u/test/a.txt'' = Inr \<lparr>Size = 20, IsDir = False\<rparr>"
      "Stat example_os ''/home/u/test/sub/b.txt'' = Inr \<lparr>Size = 5, IsDir = False\<rparr>"
    by (simp_all add: example_os_def)
  show ?thesis
    by (simp add: NewSiafolder_def NewSiafolder_walk_def g_archive_def ex_facts Walk_def l w j1 j2 j3
          NewSiafolder_walkFn_def
          watcher_Add_def uploadNonExisting_def uploadChanged_def getSiaFiles_def
          getStagingSiaFiles_def RenterFilesGet_def request_def example_keys_def
          handleCreate_def RenterUploadPost_def post_def stored_def s HasPrefix_def Equals_def)
qed

section \<open>The event handlers\<close>




text \<open>
  Claim C7, as the code has it. For every indexed path whose relative path resolves,
  \<^verbatim>\<open>handleRemove\<close> returns no error exactly when the folder is in a dry run or the remote
  delete succeeded, and it drops the path's entry from the file index exactly then;
  when the remote delete fails it returns the error and leaves the index as it was.
  Outside a dry run the delete for the path's staging mapping is the one request sent, and
  it is sent before the index changes.
\<close>

theorem handleRemove_index:
  assumes "Rel (path sf) file = Inr relpath"
    and "g_dryRun g \<or> getSiaPath g relpath = Some sp"
    and "api (DeletePost sp) (client sf) = (resp, r')"
  shows "\<exists>err sf'. handleRemove g api file sf = Some (err, sf') \<and>
           (err = None \<longleftrightarrow> g_dryRun g \<or> \<not> isFailure resp) \<and>
           files sf' = (if err = None then (files sf)(file := None) else files sf) \<and>
           calls sf' = calls sf @ (if g_dryRun g then [] else [DeletePost sp])"
  using handleRemove_eq [where api = api, OF assms]
  by (auto simp: isFailure_def split: Response.splits)

text \<open>\<^verbatim>\<open>a.txt\<close> is indexed and stored on the node: the delete succeeds and the entry goes.\<close>

theorem handleRemove_index_witness:
  "\<exists>err sf'.
     handleRemove example_globals (node_api example_os Map.empty) ''/home/u/test/a.txt''
       (example_folder [FileInfo (SiaPath ''staging/a.txt'') 10]) = Some (err, sf') \<and>
     err = None \<and> files sf' = Map.empty \<and> calls sf' = [DeletePost (SiaPath ''staging/a.txt'')]"
proof -
  let ?sf = "example_folder [FileInfo (SiaPath ''staging/a.txt'') 10]"
  have r: "Rel (path ?sf) ''/home/u/test/a.txt'' = Inr ''a.txt''"
    by (simp add: ex_rel_a)
  have s: "g_dryRun example_globals \<or>
           getSiaPath example_globals ''a.txt'' = Some (SiaPath ''staging/a.txt'')"
    by (simp add: ex_sp_a)
  have d: "node_api example_os Map.empty (DeletePost (SiaPath ''staging/a.txt'')) (client ?sf) =
             (Done, [])"
    by (simp add: stored_def)
  show ?thesis
    using handleRemove_index [where api = "node_api example_os Map.empty", OF r s d]
    by (auto simp: isFailure_def)
qed

text \<open>
  Claim C7 as stated fails: when the node cannot be reached the remote delete fails,
  \<^verbatim>\<open>handleRemove\<close> returns the error, and \<^verbatim>\<open>a.txt\<close> is still indexed.
\<close>

theorem handleRemove_counterexample:
  "handleRemove example_globals offline ''/home/u/test/a.txt'' (example_folder ()) =
     Some (Some ''error removing /home/u/test/a.txt: connection refused'',
           (example_folder ())\<lparr>calls := [DeletePost (SiaPath ''staging/a.txt'')]\<rparr>)
   \<and> files ((example_folder ())\<lparr>calls := [DeletePost (SiaPath ''staging/a.txt'')]\<rparr>)
         ''/home/u/test/a.txt'' = Some ''10''"
  by (simp add: handleRemove_def ex_facts RenterDeletePost_def post_def request_def offline_def)

section \<open>The create-retry policy\<close>

text \<open>
  The requests of a retry. After a failed first create the policy sends the query of
  the existence check and then the upload of the one retried create; since \<^verbatim>\<open>archive\<close>
  is \<^verbatim>\<open>true\<close>, the remove handler is never run and no delete is sent, whatever the
  check reports.
\<close>

lemma uploadRetry_requests:
  assumes first: "handleCreate g os api filename sf = Some (Some err, sf1)"
    and check: "isFile api filename sf1 = Some ((exists, err'), sf2)"
    and valid: "case Rel (path sf) filename of
                  Inl e \<Rightarrow> True
                | Inr relpath \<Rightarrow> getSiaPath g relpath \<noteq> None"
  shows "\<exists>sf4. uploadRetry g os api filename sf = Some sf4 \<and>
           calls sf4 =
             calls sf
             @ createRequests g os (path sf) filename
             @ checkRequests (path sf) filename
             @ createRequests g os (path sf) filename"
proof -
  have p1: "path sf1 = path sf" and c1: "calls sf1 = calls sf @ createRequests g os (path sf) filename"
    using handleCreate_calls [OF first] by simp_all
  have p2: "path sf2 = path sf"
    and c2: "calls sf2 = calls sf @ createRequests g os (path sf) filename
                           @ checkRequests (path sf) filename"
    using isFile_calls [OF check] p1 c1 by simp_all
  obtain e4 sf4 where cr: "handleCreate g os api filename sf2 = Some (e4, sf4)"
    using handleCreate_returns [where api = api and os = os, OF valid [folded p2]] by auto
  have "uploadRetry g os api filename sf = Some sf4"
    using first check cr by (simp add: uploadRetry_def g_archive_def)
  moreover have "calls sf4 = calls sf2 @ createRequests g os (path sf) filename"
    using handleCreate_calls [OF cr] p2 by simp
  ultimately show ?thesis using c2 by simp
qed

text \<open>
  Claim C8: when the first create attempt of a create event fails, the retry policy
  checks whether the remote store already has an object for the path, deletes it if so
  (with archive mode off) and retries the create once. The check does not ask for the
  object of the path: \<^verbatim>\<open>isFile\<close> queries the relative path without the staging
  directory, while \<^verbatim>\<open>handleCreate\<close> uploads to, and \<^verbatim>\<open>handleRemove\<close> deletes, the path
  under the staging directory. Here \<^verbatim>\<open>a.txt\<close> is created while the node stores
  \<^verbatim>\<open>staging/a.txt\<close>: the upload fails because the remote path is taken, the check asks
  for \<^verbatim>\<open>a.txt\<close> and reports that nothing is stored, and the retried upload fails like the
  first.
\<close>

theorem uploadRetry_checks_other_path:
  "stored [FileInfo (SiaPath ''staging/a.txt'') 20] (SiaPath ''staging/a.txt'')
   \<and> isFile (node_api example_os Map.empty) ''/home/u/test/a.txt''
         (example_folder [FileInfo (SiaPath ''staging/a.txt'') 20]) =
       Some ((False, None),
             (example_folder [FileInfo (SiaPath ''staging/a.txt'') 20])
               \<lparr>calls := [FileGet (SiaPath ''a.txt'')]\<rparr>)
   \<and> uploadRetry example_globals example_os (node_api example_os Map.empty)
         ''/home/u/test/a.txt'' (example_folder [FileInfo (SiaPath ''staging/a.txt'') 20]) =
       Some ((example_folder [FileInfo (SiaPath ''staging/a.txt'') 20])
               \<lparr>calls := [UploadPost ''/home/u/test/a.txt'' (SiaPath ''staging/a.txt'') 10 30,
                          FileGet (SiaPath ''a.txt''),
                          UploadPost ''/home/u/test/a.txt'' (SiaPath ''staging/a.txt'') 10 30]\<rparr>)"
  by (simp add: uploadRetry_def isFile_def handleCreate_def ex_facts stored_def
        RenterFileGet_def RenterUploadPost_def post_def request_def)

text \<open>
  Claim C10, as the code has it. For every path whose relative path resolves to a
  valid remote path, \<^verbatim>\<open>isFile\<close> returns a nil error whatever the remote query returned,
  and it reports the file as existing unless the query failed with an error that
  contains \<^verbatim>\<open>no file known\<close>: a query that fails for any other reason is reported like
  a file that exists.
\<close>

theorem isFile_nil_error:
  assumes "Rel (path sf) file = Inr relpath"
    and "newSiaPath relpath = Some sp"
    and "RenterFileGet api sp sf = (q, sf')"
  shows "isFile api file sf =
           Some ((case q of Inl err \<Rightarrow> \<not> Contains err ''no file known'' | Inr f \<Rightarrow> True, None),
                 sf')"
  using assms by (simp add: isFile_def split: sum.splits)

text \<open>The node cannot be reached: the query fails, and the file is reported as existing.\<close>

theorem isFile_nil_error_witness:
  "isFile offline ''/home/u/test/a.txt'' (example_folder ()) =
     Some ((True, None), (example_folder ())\<lparr>calls := [FileGet (SiaPath ''a.txt'')]\<rparr>)"
proof -
  have r: "Rel (path (example_folder ())) ''/home/u/test/a.txt'' = Inr ''a.txt''"
    by (simp add: ex_rel_a)
  have q: "RenterFileGet offline (SiaPath ''a.txt'') (example_folder ()) =
             (Inl ''connection refused'',
              (example_folder ())\<lparr>calls := [FileGet (SiaPath ''a.txt'')]\<rparr>)"
    by (simp add: RenterFileGet_def request_def offline_def)
  show ?thesis
    using isFile_nil_error [OF r ex_new_a q] ex_not_known by simp
qed

text \<open>
  Claim C10 as stated fails: for the folder's own root the relative path resolves, to
  \<^verbatim>\<open>.\<close>, which is no remote path; \<^verbatim>\<open>newSiaPath\<close> panics, and \<^verbatim>\<open>isFile\<close> returns neither
  a nil error nor anything else.
\<close>

theorem isFile_counterexample:
  "Rel (path (example_folder ())) ''/home/u/test'' = Inr ''.''
   \<and> isFile offline ''/home/u/test'' (example_folder ()) = None"
proof -
  have r: "Rel ''/home/u/test'' ''/home/u/test'' = Inr ''.''" by code_simp
  have n: "newSiaPath ''.'' = None" by code_simp
  show ?thesis by (simp add: isFile_def r n)
qed

section \<open>Startup reconciliation, run twice\<close>

lemma Equals_iff [simp]: "Equals sp sp' \<longleftrightarrow> sp = sp'"
  by (cases sp; cases sp') (simp add: Equals_def)

lemma existsIn_eq:
  "getSiaPath g relpath = Some sp \<Longrightarrow> existsIn g relpath L = Some (stored L sp)"
  by (induction L) (auto simp: stored_def)

lemma stagingOnlyE:
  assumes "stagingOnly g root' file"
  obtains relpath sp where "Rel root' file = Inr relpath" "getSiaPath g relpath = Some sp"
    "HasPrefix (Path sp) (g_siaStagingDir g @ ''/'')"
    "\<not> HasPrefix (Path sp) (g_siaProdDir g @ ''/'')"
  using assms by (auto simp: stagingOnly_def split: sum.splits option.splits)

lemma node_FilesGet:
  "RenterFilesGet (node_api os listing) True sf =
     (Inr (client sf), sf\<lparr>calls := calls sf @ [FilesGet True]\<rparr>)"
  by (simp add: RenterFilesGet_def request_def)

lemma stored_append: "stored (r @ r') sp \<longleftrightarrow> stored r sp \<or> stored r' sp"
  by (simp add: stored_def)

lemma handleCreate_node:
  assumes "handleCreate g os (node_api os listing) file sf = Some (None, sf')"
    and "Rel (path sf) file = Inr relpath" and "getSiaPath g relpath = Some sp"
  shows "path sf' = path sf \<and>
         (\<forall>q. stored (client sf) q \<longrightarrow> stored (client sf') q) \<and>
         (if g_dryRun g
          then client sf' = client sf \<and> calls sf' = calls sf \<and>
               (\<exists>a. Abs os file = Inr a) \<and> (\<exists>c. checksumFile os file = Inr c)
          else stored (client sf') sp)"
  using assms
  by (auto simp: handleCreate_def RenterUploadPost_def post_def request_def stored_append
                 stored_def
           split: sum.splits option.splits if_splits prod.splits Response.splits)

lemma handleCreate_dry:
  assumes "g_dryRun g" and "Abs os file = Inr a" and "checksumFile os file = Inr c"
    and "Rel (path sf) file = Inr relpath" and "getSiaPath g relpath = Some sp"
  shows "handleCreate g os api file sf = Some (None, sf\<lparr>files := (files sf)(file \<mapsto> c)\<rparr>)"
  using assms by (simp add: handleCreate_def)

lemma settled_mono:
  assumes "settled g os root' r file" and "\<And>q. stored r q \<Longrightarrow> stored r' q"
  shows "settled g os root' r' file"
  using assms by (auto simp: settled_def split: sum.splits option.splits)

lemma first_range:
  assumes "uploadNonExisting_range g os (node_api os listing) L ks sf = Some (None, sf')"
    and "list_all (stagingOnly g (path sf)) ks"
    and "\<And>q. stored L q \<Longrightarrow> stored (client sf) q"
  shows "path sf' = path sf \<and> (\<forall>q. stored (client sf) q \<longrightarrow> stored (client sf') q) \<and>
         list_all (settled g os (path sf) (client sf')) ks"
  using assms
proof (induction ks arbitrary: sf)
  case Nil
  then show ?case by simp
next
  case (Cons k ks)
  from Cons.prems(2) have so: "stagingOnly g (path sf) k" and rest: "list_all (stagingOnly g (path sf)) ks"
    by simp_all
  from so obtain relpath sp where rel: "Rel (path sf) k = Inr relpath"
    and sp: "getSiaPath g relpath = Some sp"
    by (rule stagingOnlyE)
  note ex = existsIn_eq [OF sp, of L]
  show ?case
  proof (cases "stored L sp")
    case True
    then have run: "uploadNonExisting_range g os (node_api os listing) L ks sf = Some (None, sf')"
      using Cons.prems(1) rel ex by simp
    note ih = Cons.IH [OF run rest Cons.prems(3)]
    have "stored (client sf') sp" using True Cons.prems(3) ih by blast
    then have "settled g os (path sf) (client sf') k"
      using rel sp by (simp add: settled_def)
    then show ?thesis using ih by simp
  next
    case False
    then obtain sf1 where cr: "handleCreate g os (node_api os listing) k sf = Some (None, sf1)"
      and run: "uploadNonExisting_range g os (node_api os listing) L ks sf1 = Some (None, sf')"
      using Cons.prems(1) rel ex
      by (auto split: option.splits prod.splits)
    note hc = handleCreate_node [OF cr rel sp]
    have p1: "path sf1 = path sf" using hc by simp
    have mono1: "\<And>q. stored (client sf) q \<Longrightarrow> stored (client sf1) q" using hc by blast
    have rest1: "list_all (stagingOnly g (path sf1)) ks" using rest p1 by simp
    have sub1: "\<And>q. stored L q \<Longrightarrow> stored (client sf1) q" using Cons.prems(3) mono1 by blast
    note ih = Cons.IH [OF run rest1 sub1]
    have s1: "settled g os (path sf) (client sf1) k"
      using hc rel sp by (auto simp: settled_def split: if_splits)
    have "settled g os (path sf) (client sf') k"
      using settled_mono [OF s1] ih by blast
    then show ?thesis using ih p1 mono1 by auto
  qed
qed

lemma stored_filter:
  "stored (filter P r) sp \<longleftrightarrow> list_ex (\<lambda>f. FileInfo_SiaPath f = sp \<and> P f) r"
  by (induction r) (auto simp: stored_def)

lemma second_range:
  assumes "list_all (stagingOnly g (path sf)) ks"
    and "list_all (settled g os (path sf) (client sf)) ks"
    and L: "L = filter (\<lambda>siafile.
                 let staging = (\<not> HasPrefix (Path (FileInfo_SiaPath siafile)) (g_siaStagingDir g @ ''/''));
                     production = (\<not> HasPrefix (Path (FileInfo_SiaPath siafile)) (g_siaProdDir g @ ''/''))
                 in staging \<or> production) (client sf)"
  shows "\<exists>sf'. uploadNonExisting_range g os api L ks sf = Some (None, sf') \<and>
           calls sf' = calls sf \<and> client sf' = client sf \<and> path sf' = path sf"
  using assms
proof (induction ks arbitrary: sf)
  case Nil
  then show ?case by simp
next
  case (Cons k ks)
  from Cons.prems(1) obtain relpath sp where rel: "Rel (path sf) k = Inr relpath"
    and sp: "getSiaPath g relpath = Some sp"
    and notprod: "\<not> HasPrefix (Path sp) (g_siaProdDir g @ ''/'')"
    by (auto elim: stagingOnlyE)
  note ex = existsIn_eq [OF sp, of L]
  have inL: "stored L sp \<longleftrightarrow> stored (client sf) sp"
    using notprod by (auto simp: Cons.prems(3) stored_filter stored_def list_ex_iff)
  show ?case
  proof (cases "stored (client sf) sp")
    case True
    then show ?thesis
      using Cons.IH [of sf] Cons.prems rel ex inL by simp
  next
    case False
    then obtain a c where dry: "g_dryRun g" and a: "Abs os k = Inr a"
      and c: "checksumFile os k = Inr c"
      using Cons.prems(2) rel sp by (auto simp: settled_def split: sum.splits)
    define sf1 where "sf1 = sf\<lparr>files := (files sf)(k \<mapsto> c)\<rparr>"
    have cr: "handleCreate g os api k sf = Some (None, sf1)"
      using handleCreate_dry [OF dry a c rel sp] by (simp add: sf1_def)
    have "\<exists>sf'. uploadNonExisting_range g os api L ks sf1 = Some (None, sf') \<and>
           calls sf' = calls sf1 \<and> client sf' = client sf1 \<and> path sf' = path sf1"
      using Cons.prems by (intro Cons.IH) (simp_all add: sf1_def)
    then show ?thesis
      using False rel ex inL cr by (auto simp: sf1_def)
  qed
qed

lemma changed_match_none:
  assumes "getSiaPath g relpath = Some sp"
    and "HasPrefix (Path sp) (g_siaStagingDir g @ ''/'')"
    and "list_all (\<lambda>f. \<not> HasPrefix (Path (FileInfo_SiaPath f)) (g_siaStagingDir g @ ''/'')) L"
  shows "uploadChanged_match g os api file relpath L sf = Some (None, sf)"
  using assms by (induction L) auto

lemma changed_range_none:
  assumes "list_all (stagingOnly g (path sf)) ks"
    and "list_all (\<lambda>f. \<not> HasPrefix (Path (FileInfo_SiaPath f)) (g_siaStagingDir g @ ''/'')) L"
  shows "uploadChanged_range g os api L ks sf = Some (None, sf)"
  using assms
proof (induction ks)
  case Nil
  then show ?case by simp
next
  case (Cons k ks)
  from Cons.prems(1) obtain relpath sp where rel: "Rel (path sf) k = Inr relpath"
    and sp: "getSiaPath g relpath = Some sp"
    and st: "HasPrefix (Path sp) (g_siaStagingDir g @ ''/'')"
    by (auto elim: stagingOnlyE)
  show ?case
    using Cons rel by (simp add: changed_match_none [OF sp st Cons.prems(2)])
qed

lemma uploadChanged_none:
  assumes "list_all (stagingOnly g (path sf)) ks"
  shows "uploadChanged g os (node_api os listing) ks sf =
           Some (None, sf\<lparr>calls := calls sf @ [FilesGet True]\<rparr>)"
proof -
  have "list_all (\<lambda>f. \<not> HasPrefix (Path (FileInfo_SiaPath f)) (g_siaStagingDir g @ ''/''))
          (filter (\<lambda>siafile. let staging = (\<not> HasPrefix (Path (FileInfo_SiaPath siafile)) (g_siaStagingDir g @ ''/'')) in staging) (client sf))"
    by (simp add: list_all_iff)
  then show ?thesis
    using assms
    by (simp add: uploadChanged_def getStagingSiaFiles_def node_FilesGet changed_range_none)
qed



lemma walk_commute:
  assumes "\<And>p n s. walkFn p n (upd s) = map_prod id upd (walkFn p n s)"
  shows "walk walkFn p n (upd s) = map_prod id upd (walk walkFn p n s)"
    and "walkNames walkFn p es (upd s) = map_prod id upd (walkNames walkFn p es s)"
  using assms
proof (induction walkFn p n s and walkFn p es s rule: walk_walkNames.induct)
  case (1 walkFn p entries s)
  obtain e s' where w: "walkFn p (Dir entries) s = (e, s')" by (cases "walkFn p (Dir entries) s")
  then have w': "walkFn p (Dir entries) (upd s) = (e, upd s')" using "1.prems" by simp
  show ?case
  proof (cases e)
    case None
    then show ?thesis using w w' "1.IH" "1.prems" by simp
  next
    case (Some err)
    then show ?thesis using w w' by simp
  qed
next
  case (5 walkFn p name nd rest s)
  obtain e s' where w: "walk walkFn (Join p name) nd s = (e, s')"
    by (cases "walk walkFn (Join p name) nd s")
  then have w': "walk walkFn (Join p name) nd (upd s) = (e, upd s')"
    using "5.IH"(1) "5.prems" by simp
  show ?case
  proof (cases e)
    case None
    then show ?thesis using w w' "5.IH"(2) "5.prems" by simp
  next
    case (Some err)
    then show ?thesis using w w' by simp
  qed
qed simp_all

lemma walk_keeps:
  assumes "\<And>p n s. f (snd (walkFn p n s)) = f s"
  shows "f (snd (walk walkFn p n s)) = f s"
    and "f (snd (walkNames walkFn p es s)) = f s"
  using assms
proof (induction walkFn p n s and walkFn p es s rule: walk_walkNames.induct)
  case (1 walkFn p entries s)
  obtain e s' where w: "walkFn p (Dir entries) s = (e, s')" by (cases "walkFn p (Dir entries) s")
  then have k: "f s' = f s" using "1.prems" [of p "Dir entries" s] by simp
  show ?case
  proof (cases e)
    case None
    then show ?thesis using w k "1.IH" "1.prems" by simp
  next
    case (Some err)
    then show ?thesis using w k by simp
  qed
next
  case (5 walkFn p name nd rest s)
  obtain e s' where w: "walk walkFn (Join p name) nd s = (e, s')"
    by (cases "walk walkFn (Join p name) nd s")
  then have k: "f s' = f s" using "5.IH"(1) "5.prems" by simp
  show ?case
  proof (cases e)
    case None
    then show ?thesis using w k "5.IH"(2) "5.prems" by simp
  next
    case (Some err)
    then show ?thesis using w k by simp
  qed
qed simp_all

lemma walkFn_client:
  "NewSiafolder_walkFn os p0 wp n (sf\<lparr>client := r'\<rparr>) =
     map_prod id (\<lambda>s. s\<lparr>client := r'\<rparr>) (NewSiafolder_walkFn os p0 wp n sf)"
  by (auto simp: NewSiafolder_walkFn_def watcher_Add_def split: node.splits option.splits sum.splits)

lemma walkFn_keeps:
  "path (snd (NewSiafolder_walkFn os p0 wp n sf)) = path sf"
  "calls (snd (NewSiafolder_walkFn os p0 wp n sf)) = calls sf"
  "client (snd (NewSiafolder_walkFn os p0 wp n sf)) = client sf"
  by (auto simp: NewSiafolder_walkFn_def watcher_Add_def split: node.splits option.splits sum.splits)

lemma Walk_client:
  "Walk os p (NewSiafolder_walkFn os p0) (sf\<lparr>client := r'\<rparr>) =
     map_prod id (\<lambda>s. s\<lparr>client := r'\<rparr>) (Walk os p (NewSiafolder_walkFn os p0) sf)"
  unfolding Walk_def by (rule walk_commute) (rule walkFn_client)

lemma Walk_keeps:
  assumes "Walk os p (NewSiafolder_walkFn os p0) sf = (e, sf')"
  shows "path sf' = path sf \<and> calls sf' = calls sf \<and> client sf' = client sf"
proof -
  have "path (snd (Walk os p (NewSiafolder_walkFn os p0) sf)) = path sf"
    unfolding Walk_def by (rule walk_keeps) (rule walkFn_keeps)
  moreover have "calls (snd (Walk os p (NewSiafolder_walkFn os p0) sf)) = calls sf"
    unfolding Walk_def by (rule walk_keeps) (rule walkFn_keeps)
  moreover have "client (snd (Walk os p (NewSiafolder_walkFn os p0) sf)) = client sf"
    unfolding Walk_def by (rule walk_keeps) (rule walkFn_keeps)
  ultimately show ?thesis using assms by simp
qed


lemma walk_phase_client:
  "NewSiafolder_walk g os path' r' =
     map_prod id (\<lambda>s. s\<lparr>client := r'\<rparr>) (NewSiafolder_walk g os path' r)"
proof (cases "Abs os path'")
  case (Inl err)
  then show ?thesis by (simp add: NewSiafolder_walk_def)
next
  case (Inr abspath)
  define s :: "'a SiaFolder" where
    "s = \<lparr>path = abspath, client = r, calls = [], archive = g_archive,
          siaStagingDir = g_siaStagingDir g, siaProdDir = g_siaProdDir g,
          watcher = Some [], files = Map.empty, dirs = Map.empty\<rparr>"
  have e: "NewSiafolder_walk g os path' r =
             (case NewWatcher os of
                Some err \<Rightarrow> (Some err, s\<lparr>watcher := None\<rparr>)
              | None \<Rightarrow>
                  (case watcher_Add os abspath s of
                     (Some err, sf2) \<Rightarrow> (Some err, s\<lparr>watcher := None\<rparr>)
                   | (None, sf2) \<Rightarrow> Walk os abspath (NewSiafolder_walkFn os path') sf2))"
    by (auto simp: NewSiafolder_walk_def Inr s_def Let_def split: option.splits prod.splits)
  have e': "NewSiafolder_walk g os path' r' =
             (case NewWatcher os of
                Some err \<Rightarrow> (Some err, s\<lparr>client := r', watcher := None\<rparr>)
              | None \<Rightarrow>
                  (case watcher_Add os abspath (s\<lparr>client := r'\<rparr>) of
                     (Some err, sf2) \<Rightarrow> (Some err, s\<lparr>client := r', watcher := None\<rparr>)
                   | (None, sf2) \<Rightarrow> Walk os abspath (NewSiafolder_walkFn os path') sf2))"
    by (auto simp: NewSiafolder_walk_def Inr s_def Let_def split: option.splits prod.splits)
  have w: "watcher_Add os abspath (s\<lparr>client := r'\<rparr>) =
             map_prod id (\<lambda>s. s\<lparr>client := r'\<rparr>) (watcher_Add os abspath s)"
    by (simp add: watcher_Add_def split: option.splits)
  show ?thesis
    unfolding e e' w
    by (cases "watcher_Add os abspath s")
       (auto simp: Walk_client split: option.splits)
qed

lemma walk_phase_keeps:
  assumes "NewSiafolder_walk g os path' r = (None, sf)"
  shows "Abs os path' = Inr (path sf) \<and> calls sf = [] \<and> client sf = r"
  using assms
  by (auto simp: NewSiafolder_walk_def Let_def watcher_Add_def
           split: sum.splits option.splits prod.splits dest!: Walk_keeps)

text \<open>
  Where every indexed file maps to a remote path under the staging directory and not
  under the production directory, a first startup reconciliation that returns without
  error leaves the node (\<open>node_api\<close>, which stores what is uploaded to it) in a state
  from which a second one, over the same local tree, sends no upload: its only requests
  are the two listings, and the node's state stays as it is. The range loops of both
  runs go over the same keys, in any order.
\<close>

lemma reconciliation_idempotent:
  assumes first: "NewSiafolder g os (node_api os listing) keys1 keys2 path' r = Some (None, sf1)"
    and abs: "Abs os path' = Inr abspath"
    and ns: "list_all (stagingOnly g abspath) keys1"
    and k2: "set keys2 = set keys1" and k1': "set keys1' = set keys1"
    and k2': "set keys2' = set keys1"
  shows "\<exists>sf2. NewSiafolder g os (node_api os listing) keys1' keys2' path' (client sf1) =
               Some (None, sf2) \<and>
           calls sf2 = [FilesGet True, FilesGet True] \<and> client sf2 = client sf1"
proof -
  let ?api = "node_api os listing"
  let ?P = "\<lambda>siafile.
              let staging = (\<not> HasPrefix (Path (FileInfo_SiaPath siafile)) (g_siaStagingDir g @ ''/''));
                  production = (\<not> HasPrefix (Path (FileInfo_SiaPath siafile)) (g_siaProdDir g @ ''/''))
              in staging \<or> production"
  have all: "list_all (stagingOnly g abspath) ks" if "set ks = set keys1" for ks
    using ns that by (simp add: list_all_iff)
  from first obtain sf3 sf4 where
    w: "NewSiafolder_walk g os path' r = (None, sf3)"
    and u1: "uploadNonExisting g os ?api keys1 sf3 = Some (None, sf4)"
    and u2: "uploadChanged g os ?api keys2 sf4 = Some (None, sf1)"
    by (auto simp: NewSiafolder_def split: prod.splits option.splits)
  have p3: "path sf3 = abspath" and c3: "calls sf3 = []"
    using walk_phase_keeps [OF w] abs by simp_all
  define sf3' where "sf3' = sf3\<lparr>calls := calls sf3 @ [FilesGet True]\<rparr>"
  have r1: "uploadNonExisting_range g os ?api (filter ?P (client sf3')) keys1 sf3' = Some (None, sf4)"
    using u1 by (simp add: uploadNonExisting_def getSiaFiles_def node_FilesGet sf3'_def)
  have "path sf4 = path sf3' \<and> (\<forall>q. stored (client sf3') q \<longrightarrow> stored (client sf4) q) \<and>
        list_all (settled g os (path sf3') (client sf4)) keys1"
    using r1
  proof (rule first_range)
    show "list_all (stagingOnly g (path sf3')) keys1" using ns p3 by (simp add: sf3'_def)
    show "stored (client sf3') q" if "stored (filter ?P (client sf3')) q" for q
      using that by (auto simp: stored_filter stored_def list_ex_iff)
  qed
  then have p4: "path sf4 = abspath" and s4: "list_all (settled g os abspath (client sf4)) keys1"
    using p3 by (simp_all add: sf3'_def)
  have "uploadChanged g os ?api keys2 sf4 = Some (None, sf4\<lparr>calls := calls sf4 @ [FilesGet True]\<rparr>)"
    using all [OF k2] p4 by (intro uploadChanged_none) simp
  then have c1: "client sf1 = client sf4" using u2 by auto
  define t3 where "t3 = sf3\<lparr>client := client sf1\<rparr>"
  have w2: "NewSiafolder_walk g os path' (client sf1) = (None, t3)"
    using walk_phase_client [of g os path' "client sf1" r] w by (simp add: t3_def)
  define t3' where "t3' = t3\<lparr>calls := calls t3 @ [FilesGet True]\<rparr>"
  have s1': "list_all (settled g os (path t3') (client t3')) keys1'"
    using s4 k1' c1 p3 by (simp add: t3'_def t3_def list_all_iff)
  have n1': "list_all (stagingOnly g (path t3')) keys1'"
    using all [OF k1'] p3 by (simp add: t3'_def t3_def)
  obtain t4 where r2: "uploadNonExisting_range g os ?api (filter ?P (client t3')) keys1' t3' = Some (None, t4)"
    and t4: "calls t4 = calls t3'" "client t4 = client t3'" "path t4 = path t3'"
    using second_range [OF n1' s1', where api = ?api and L = "filter ?P (client t3')"] by auto
  have v1: "uploadNonExisting g os ?api keys1' t3 = Some (None, t4)"
    using r2 by (simp add: uploadNonExisting_def getSiaFiles_def node_FilesGet t3'_def)
  have v2: "uploadChanged g os ?api keys2' t4 = Some (None, t4\<lparr>calls := calls t4 @ [FilesGet True]\<rparr>)"
    using all [OF k2'] t4 p3 by (intro uploadChanged_none) (simp add: t3'_def t3_def)
  have "NewSiafolder g os ?api keys1' keys2' path' (client sf1) =
          Some (None, t4\<lparr>calls := calls t4 @ [FilesGet True]\<rparr>)"
    using w2 v1 v2 by (simp add: NewSiafolder_def)
  moreover have "calls (t4\<lparr>calls := calls t4 @ [FilesGet True]\<rparr>) = [FilesGet True, FilesGet True]"
    using t4 c3 by (simp add: t3'_def t3_def)
  moreover have "client (t4\<lparr>calls := calls t4 @ [FilesGet True]\<rparr>) = client sf1"
    using t4 by (simp add: t3'_def t3_def)
  ultimately show ?thesis by blast
qed

text \<open>
  The example folder against an empty node: the first run uploads both files, and a
  second run, ranging over the keys in the other order, only lists.
\<close>

lemma ex_first_run:
  "NewSiafolder example_globals example_os (node_api example_os Map.empty)
     example_keys example_keys ''/home/u/test'' [] =
   Some (None,
     \<lparr>path = ''/home/u/test'',
      client = [FileInfo (SiaPath ''staging/a.txt'') 20, FileInfo (SiaPath ''staging/sub/b.txt'') 5],
      calls = [FilesGet True,
               UploadPost ''/home/u/test/a.txt'' (SiaPath ''staging/a.txt'') 10 30,
               UploadPost ''/home/u/test/sub/b.txt'' (SiaPath ''staging/sub/b.txt'') 10 30,
               FilesGet True],
      archive = True, siaStagingDir = ''staging'', siaProdDir = ''production'',
      watcher = Some [''/home/u/test'', ''/home/u/test/sub''],
      files = [''/home/u/test/a.txt'' \<mapsto> ''20'', ''/home/u/test/sub/b.txt'' \<mapsto> ''5''],
      dirs = [''/home/u/test/sub'' \<mapsto> False]\<rparr>)"
proof -
  have j1: "Join ''/home/u/test'' ''a.txt'' = ''/home/u/test/a.txt''" by code_simp
  have j2: "Join ''/home/u/test'' ''sub'' = ''/home/u/test/sub''" by code_simp
  have j3: "Join ''/home/u/test/sub'' ''b.txt'' = ''/home/u/test/sub/b.txt''" by code_simp
  have l: "Lstat example_os ''/home/u/test'' =
             Dir [(''a.txt'', File), (''sub'', Dir [(''b.txt'', File)])]"
    by (simp add: example_os_def)
  have w: "WatcherAdd example_os = (\<lambda>p. None)" "NewWatcher example_os = None"
    by (simp_all add: example_os_def)
  have s: "Stat example_os ''/home/u/test/a.txt'' = Inr \<lparr>Size = 20, IsDir = False\<rparr>"
      "Stat example_os ''/home/u/test/sub/b.txt'' = Inr \<lparr>Size = 5, IsDir = False\<rparr>"
    by (simp_all add: example_os_def)
  show ?thesis
    by (simp add: NewSiafolder_def NewSiafolder_walk_def g_archive_def ex_facts Walk_def l w j1 j2 j3
          NewSiafolder_walkFn_def
          watcher_Add_def uploadNonExisting_def uploadChanged_def getSiaFiles_def
          getStagingSiaFiles_def RenterFilesGet_def request_def example_keys_def
          handleCreate_def RenterUploadPost_def post_def stored_def s HasPrefix_def)
qed

lemma ex_second_run:
  "\<exists>sf2. NewSiafolder example_globals example_os (node_api example_os Map.empty)
            (rev example_keys) example_keys ''/home/u/test''
            [FileInfo (SiaPath ''staging/a.txt'') 20, FileInfo (SiaPath ''staging/sub/b.txt'') 5] =
            Some (None, sf2) \<and>
          calls sf2 = [FilesGet True, FilesGet True] \<and>
          client sf2 =
            [FileInfo (SiaPath ''staging/a.txt'') 20, FileInfo (SiaPath ''staging/sub/b.txt'') 5]"
proof -
  have ns: "list_all (stagingOnly example_globals ''/home/u/test'') example_keys"
    by (simp add: stagingOnly_def ex_facts HasPrefix_def example_keys_def)
  have k: "set example_keys = set example_keys" "set (rev example_keys) = set example_keys"
    by simp_all
  show ?thesis
    using reconciliation_idempotent [OF ex_first_run ex_abs_root ns k(1) k(2) k(1)]
    by simp
qed

text \<open>
  Claim C6: a second startup reconciliation, over the same local tree and from the
  remote state the first one produced, sends no upload. The code does not do this when a
  file's remote path is under the staging and under the production directory: the
  listing of \<^verbatim>\<open>getSiaFiles\<close> keeps a file that is outside one of the two directories, so
  it leaves out every file the first run uploaded, and the second run uploads again.
  With the staging directory \<^verbatim>\<open>fuse/staging\<close> and the production directory \<^verbatim>\<open>fuse\<close>, the
  first run on an empty node uploads both files; the second run lists, uploads
  \<^verbatim>\<open>a.txt\<close> once more, and returns the node's error.
\<close>

theorem reconciliation_uploads_again:
  "NewSiafolder nested_globals example_os (node_api example_os Map.empty)
     example_keys example_keys ''/home/u/test'' [] =
   Some (None,
     \<lparr>path = ''/home/u/test'',
      client = [FileInfo (SiaPath ''fuse/staging/a.txt'') 20,
                FileInfo (SiaPath ''fuse/staging/sub/b.txt'') 5],
      calls = [FilesGet True,
               UploadPost ''/home/u/test/a.txt'' (SiaPath ''fuse/staging/a.txt'') 10 30,
               UploadPost ''/home/u/test/sub/b.txt'' (SiaPath ''fuse/staging/sub/b.txt'') 10 30,
               FilesGet True],
      archive = True, siaStagingDir = ''fuse/staging'', siaProdDir = ''fuse'',
      watcher = Some [''/home/u/test'', ''/home/u/test/sub''],
      files = [''/home/u/test/a.txt'' \<mapsto> ''20'', ''/home/u/test/sub/b.txt'' \<mapsto> ''5''],
      dirs = [''/home/u/test/sub'' \<mapsto> False]\<rparr>)
   \<and> NewSiafolder nested_globals example_os (node_api example_os Map.empty)
       example_keys example_keys ''/home/u/test''
       [FileInfo (SiaPath ''fuse/staging/a.txt'') 20,
        FileInfo (SiaPath ''fuse/staging/sub/b.txt'') 5] =
   Some (Some ''error uploading /home/u/test/a.txt: upload failed: a file already exists at that location'',
     \<lparr>path = ''/home/u/test'',
      client = [FileInfo (SiaPath ''fuse/staging/a.txt'') 20,
                FileInfo (SiaPath ''fuse/staging/sub/b.txt'') 5],
      calls = [FilesGet True,
               UploadPost ''/home/u/test/a.txt'' (SiaPath ''fuse/staging/a.txt'') 10 30],
      archive = True, siaStagingDir = ''fuse/staging'', siaProdDir = ''fuse'',
      watcher = Some [''/home/u/test'', ''/home/u/test/sub''],
      files = [''/home/u/test/a.txt'' \<mapsto> ''20'', ''/home/u/test/sub/b.txt'' \<mapsto> ''5''],
      dirs = [''/home/u/test/sub'' \<mapsto> False]\<rparr>)"
proof -
  have j1: "Join ''/home/u/test'' ''a.txt'' = ''/home/u/test/a.txt''" by code_simp
  have j2: "Join ''/home/u/test'' ''sub'' = ''/home/u/test/sub''" by code_simp
  have j3: "Join ''/home/u/test/sub'' ''b.txt'' = ''/home/u/test/sub/b.txt''" by code_simp
  have l: "Lstat example_os ''/home/u/test'' =
             Dir [(''a.txt'', File), (''sub'', Dir [(''b.txt'', File)])]"
    by (simp add: example_os_def)
  have w: "WatcherAdd example_os = (\<lambda>p. None)" "NewWatcher example_os = None"
    by (simp_all add: example_os_def)
  have s: "Stat example_os ''/home/u/test/a.txt'' = Inr \<lparr>Size = 20, IsDir = False\<rparr>"
      "Stat example_os ''/home/u/test/sub/b.txt'' = Inr \<lparr>Size = 5, IsDir = False\<rparr>"
    by (simp_all add: example_os_def)
  have g: "g_dryRun nested_globals = False" "g_siaStagingDir nested_globals = ''fuse/staging''"
      "g_siaProdDir nested_globals = ''fuse''" "dataPieces nested_globals = 10"
      "parityPieces nested_globals = 30"
    by (simp_all add: nested_globals_def)
  have p: "getSiaPath nested_globals ''a.txt'' = Some (SiaPath ''fuse/staging/a.txt'')"
      "getSiaPath nested_globals ''sub/b.txt'' = Some (SiaPath ''fuse/staging/sub/b.txt'')"
    by code_simp+
  show ?thesis
    by (simp add: NewSiafolder_def NewSiafolder_walk_def g_archive_def ex_facts Walk_def l w
          j1 j2 j3 g p NewSiafolder_walkFn_def
          watcher_Add_def uploadNonExisting_def uploadChanged_def getSiaFiles_def
          getStagingSiaFiles_def RenterFilesGet_def request_def example_keys_def
          handleCreate_def RenterUploadPost_def post_def stored_def s HasPrefix_def)
qed

end
